theory Spec2Isabelle
  imports
    Complex_Main
    "HOL-Library.AList"
    "HOL-Library.Char_ord"
    "HOL-Library.List_Lexorder"
    "HOL-Library.Multiset"
begin

section \<open>The daily logger \<^verbatim>\<open>scripts/daily.js\<close>\<close>

text \<open>
  The script is one ECMAScript module: a fetch helper, a three-slot fallback combinator,
  seven providers (one sentiment, three exchange-rate, three price), the reader and writer
  of \<^verbatim>\<open>data/log.json\<close>, and \<^verbatim>\<open>main\<close>. Every function of the source has a definition
  of the same name below. Asynchronous functions become state-passing functions over the list
  of observable events (requests, console lines, sleeps, the file write); a rejected promise
  or a thrown exception is the \<open>Inl\<close> branch of a sum.
\<close>

subsection \<open>ECMAScript values\<close>

text \<open>
  A Number is a binary64 value. Finite values are kept as the rational they denote
  (\<open>-0\<close> is identified with \<open>0\<close>: the script never divides, and \<^verbatim>\<open>JSON.stringify\<close> prints
  both as \<^verbatim>\<open>0\<close>). Rounding, the reading of a numeric string and the printing of a number are
  left to the runtime, see \<open>env\<close> below.
\<close>

datatype jsnum = NaN | Infinity | NegInfinity | Num rat

text \<open>
  The values the script handles are the results of \<^verbatim>\<open>JSON.parse\<close> and the objects it builds
  itself, all of them JSON-shaped. \<^verbatim>\<open>undefined\<close> is \<open>None\<close> of \<open>json option\<close>. An object is
  the list of its own properties in enumeration order; keys are distinct in every object
  that \<^verbatim>\<open>JSON.parse\<close> returns. Strings are lists of 8-bit code units.
\<close>

datatype json =
    JNull
  | JBool bool
  | JNum jsnum
  | JStr string
  | JArr "json list"
  | JObj "(string \<times> json) list"

type_synonym jsval = "json option"

datatype prim = PUndefined | PNull | PBool bool | PNum jsnum | PStr string

text \<open>A thrown value: every exception of this script is an \<^verbatim>\<open>Error\<close> object with a name and a message.\<close>

datatype js_error = Thrown (err_name: string) (message: string)

abbreviation Error :: "string \<Rightarrow> js_error" where
  "Error m \<equiv> Thrown ''Error'' m"

abbreviation TypeError :: "string \<Rightarrow> js_error" where
  "TypeError m \<equiv> Thrown ''TypeError'' m"

datatype http_body = BodyFails js_error | Body json

datatype http_reply = NoResponse js_error | Response nat http_body

text \<open>
  What the script cannot decide itself is a parameter: the clock, the network, the order in
  which two concurrent rejections arrive, and the three floating-point primitives of the
  runtime. \<open>reply env url n\<close> is the outcome of the \<open>n\<close>-th request (from 0) to \<open>url\<close>;
  a timeout abort is a \<open>NoResponse\<close>. Every theorem below holds for every \<open>env\<close>.
\<close>

record env =
  StringToNumber :: "string \<Rightarrow> jsnum"
  NumberToString :: "jsnum \<Rightarrow> string"
  round64 :: "rat \<Rightarrow> jsnum"
  utc_date :: "int \<times> nat \<times> nat"
  iso_now :: string
  reply :: "string \<Rightarrow> nat \<Rightarrow> http_reply"
  fng_rejects_first :: "nat \<Rightarrow> bool"

datatype event =
    Request string
  | ConsoleLog "json list"
  | ConsoleError string js_error
  | Sleep nat
  | WriteFile json

type_synonym 'a io = "event list \<Rightarrow> (js_error + 'a) \<times> event list"

subsection \<open>Conversions and operators of the language\<close>

fun num_truthy :: "jsnum \<Rightarrow> bool" where
  "num_truthy NaN = False"
| "num_truthy (Num q) = (q \<noteq> 0)"
| "num_truthy Infinity = True"
| "num_truthy NegInfinity = True"

text \<open>\<^verbatim>\<open>!v\<close> is \<open>\<not> truthy v\<close>.\<close>

fun truthy :: "jsval \<Rightarrow> bool" where
  "truthy None = False"
| "truthy (Some JNull) = False"
| "truthy (Some (JBool b)) = b"
| "truthy (Some (JNum n)) = num_truthy n"
| "truthy (Some (JStr s)) = (s \<noteq> [])"
| "truthy (Some (JArr xs)) = True"
| "truthy (Some (JObj kvs)) = True"

definition digit :: "nat \<Rightarrow> char" where
  "digit d = ''0123456789'' ! d"

fun decimal :: "nat \<Rightarrow> string" where
  "decimal n = (if n < 10 then [digit n] else decimal (n div 10) @ [digit (n mod 10)])"

declare decimal.simps [simp del]

definition decimal_int :: "int \<Rightarrow> string" where
  "decimal_int i = (if i < 0 then CHR ''-'' # decimal (nat (- i)) else decimal (nat i))"

text \<open>
  \<open>v.k\<close> on a value that is neither \<^verbatim>\<open>null\<close> nor \<^verbatim>\<open>undefined\<close>, for a name \<open>k\<close> that no
  prototype defines (all the names the script reads, \<^verbatim>\<open>entries\<close> on an array apart, which
  \<open>init_log\<close> handles).
\<close>

fun get_prop :: "json \<Rightarrow> string \<Rightarrow> jsval" where
  "get_prop (JObj kvs) k = map_of kvs k"
| "get_prop _ k = None"

text \<open>\<open>v[i]\<close> on such a value.\<close>

fun get_index :: "json \<Rightarrow> nat \<Rightarrow> jsval" where
  "get_index (JArr xs) i = (if i < length xs then Some (xs ! i) else None)"
| "get_index (JStr s) i = (if i < length s then Some (JStr [s ! i]) else None)"
| "get_index (JObj kvs) i = map_of kvs (decimal i)"
| "get_index _ i = None"

text \<open>Optional chaining \<open>v?.k\<close> and \<open>v?.[i]\<close>.\<close>

fun opt_prop :: "jsval \<Rightarrow> string \<Rightarrow> jsval" where
  "opt_prop None k = None"
| "opt_prop (Some JNull) k = None"
| "opt_prop (Some v) k = get_prop v k"

fun opt_index :: "jsval \<Rightarrow> nat \<Rightarrow> jsval" where
  "opt_index None i = None"
| "opt_index (Some JNull) i = None"
| "opt_index (Some v) i = get_index v i"

text \<open>
  \<^verbatim>\<open>ToString\<close> of a value other than \<^verbatim>\<open>undefined\<close>. An array prints through
  \<^verbatim>\<open>Array.prototype.join\<close>; a plain object prints as \<^verbatim>\<open>[object Object]\<close> unless it has an own
  member \<^verbatim>\<open>toString\<close>, which (coming from JSON) is not callable, so that
  \<^verbatim>\<open>OrdinaryToPrimitive\<close> finds no method returning a primitive and throws.
\<close>

fun ToString :: "env \<Rightarrow> json \<Rightarrow> js_error + string"
  and join :: "env \<Rightarrow> json list \<Rightarrow> js_error + string" where
  "ToString env JNull = Inr ''null''"
| "ToString env (JBool b) = Inr (if b then ''true'' else ''false'')"
| "ToString env (JNum n) = Inr (NumberToString env n)"
| "ToString env (JStr s) = Inr s"
| "ToString env (JArr xs) = join env xs"
| "ToString env (JObj kvs) =
     (if ''toString'' \<in> fst ` set kvs
      then Inl (TypeError ''Cannot convert object to primitive value'')
      else Inr ''[object Object]'')"
| "join env [] = Inr ''''"
| "join env (x # xs) =
     (case (if x = JNull then Inr '''' else ToString env x) of
        Inl e \<Rightarrow> Inl e
      | Inr s \<Rightarrow>
          (if xs = [] then Inr s
           else (case join env xs of Inl e \<Rightarrow> Inl e | Inr r \<Rightarrow> Inr (s @ '','' @ r))))"

fun ToPrimitive :: "env \<Rightarrow> jsval \<Rightarrow> js_error + prim" where
  "ToPrimitive env None = Inr PUndefined"
| "ToPrimitive env (Some JNull) = Inr PNull"
| "ToPrimitive env (Some (JBool b)) = Inr (PBool b)"
| "ToPrimitive env (Some (JNum n)) = Inr (PNum n)"
| "ToPrimitive env (Some (JStr s)) = Inr (PStr s)"
| "ToPrimitive env (Some v) = (case ToString env v of Inl e \<Rightarrow> Inl e | Inr s \<Rightarrow> Inr (PStr s))"

fun ToNumber :: "env \<Rightarrow> prim \<Rightarrow> jsnum" where
  "ToNumber env PUndefined = NaN"
| "ToNumber env PNull = Num 0"
| "ToNumber env (PBool b) = Num (if b then 1 else 0)"
| "ToNumber env (PNum n) = n"
| "ToNumber env (PStr s) = StringToNumber env s"

text \<open>The calls \<^verbatim>\<open>Number(v)\<close> and \<^verbatim>\<open>String(v)\<close>.\<close>

definition Number :: "env \<Rightarrow> jsval \<Rightarrow> js_error + jsnum" where
  "Number env v = (case ToPrimitive env v of Inl e \<Rightarrow> Inl e | Inr p \<Rightarrow> Inr (ToNumber env p))"

definition String :: "env \<Rightarrow> jsval \<Rightarrow> js_error + string" where
  "String env v = (case v of None \<Rightarrow> Inr ''undefined'' | Some j \<Rightarrow> ToString env j)"

text \<open>The operator \<open>*\<close> on Numbers: the special values by the standard, a finite product rounded.\<close>

fun num_sign :: "jsnum \<Rightarrow> int" where
  "num_sign NaN = 0"
| "num_sign Infinity = 1"
| "num_sign NegInfinity = - 1"
| "num_sign (Num q) = (if q < 0 then - 1 else if q = 0 then 0 else 1)"

fun multiply :: "env \<Rightarrow> jsnum \<Rightarrow> jsnum \<Rightarrow> jsnum" where
  "multiply env (Num x) (Num y) = round64 env (x * y)"
| "multiply env a b =
     (if a = NaN \<or> b = NaN \<or> num_sign a * num_sign b = 0 then NaN
      else if 0 < num_sign a * num_sign b then Infinity else NegInfinity)"

text \<open>The operator \<open><\<close>: two strings by code units, anything else as Numbers.\<close>

fun num_less :: "jsnum \<Rightarrow> jsnum \<Rightarrow> bool" where
  "num_less NaN b = False"
| "num_less a NaN = False"
| "num_less (Num x) (Num y) = (x < y)"
| "num_less a Infinity = (a \<noteq> Infinity)"
| "num_less NegInfinity b = (b \<noteq> NegInfinity)"
| "num_less a b = False"

definition less_than :: "env \<Rightarrow> jsval \<Rightarrow> jsval \<Rightarrow> js_error + bool" where
  "less_than env a b =
     (case ToPrimitive env a of Inl e \<Rightarrow> Inl e
      | Inr pa \<Rightarrow>
        (case ToPrimitive env b of Inl e \<Rightarrow> Inl e
         | Inr pb \<Rightarrow>
           (case (pa, pb) of
              (PStr s, PStr t) \<Rightarrow> Inr (s < t)
            | _ \<Rightarrow> Inr (num_less (ToNumber env pa) (ToNumber env pb)))))"

subsection \<open>Helpers\<close>

text \<open>\<^verbatim>\<open>String(n).padStart(2, "0")\<close>.\<close>

definition padStart2 :: "string \<Rightarrow> string" where
  "padStart2 s = replicate (2 - length s) CHR ''0'' @ s"

text \<open>
  \<^verbatim>\<open>todayYmdUTC\<close>, from the \<^verbatim>\<open>getUTCFullYear\<close>, \<^verbatim>\<open>getUTCMonth\<close> and \<^verbatim>\<open>getUTCDate\<close> of the
  clock.
\<close>

definition todayYmdUTC :: "env \<Rightarrow> string" where
  "todayYmdUTC env =
     (case utc_date env of
        (y, m, day) \<Rightarrow>
          decimal_int y @ ''-'' @ padStart2 (decimal (m + 1)) @ ''-'' @ padStart2 (decimal day))"

text \<open>
  \<^verbatim>\<open>fetchJson(url, label)\<close>: one request; a rejected \<^verbatim>\<open>fetch\<close> (network failure, or the abort
  that the 12 s timer triggers) and a body that does not parse are the runtime's errors, a
  status outside 200..299 is the script's own. The timer is cleared on every path and leaves
  no trace.
\<close>

definition fetchJson :: "env \<Rightarrow> string \<Rightarrow> string \<Rightarrow> json io" where
  "fetchJson env url label tr =
     (case reply env url (count_list tr (Request url)) of
        NoResponse e \<Rightarrow> (Inl e, tr @ [Request url])
      | Response status body \<Rightarrow>
          (if \<not> (200 \<le> status \<and> status \<le> 299)
           then (Inl (Error (label @ '' HTTP '' @ decimal status)), tr @ [Request url])
           else (case body of
                   BodyFails e \<Rightarrow> (Inl e, tr @ [Request url])
                 | Body j \<Rightarrow> (Inr j, tr @ [Request url]))))"

text \<open>\<^verbatim>\<open>try3\<close>: each \<^verbatim>\<open>catch\<close> writes one console line and falls through to the next slot.\<close>

definition try3 :: "string \<Rightarrow> 'a io \<Rightarrow> 'a io \<Rightarrow> 'a io \<Rightarrow> 'a io" where
  "try3 label f1 f2 f3 tr =
     (case f1 tr of
        (Inr v, tr1) \<Rightarrow> (Inr v, tr1)
      | (Inl e1, tr1) \<Rightarrow>
          (case f2 (tr1 @ [ConsoleLog [JStr (label @ '' #1 fail:''), JStr (message e1)]]) of
             (Inr v, tr2) \<Rightarrow> (Inr v, tr2)
           | (Inl e2, tr2) \<Rightarrow>
               f3 (tr2 @ [ConsoleLog [JStr (label @ '' #2 fail:''), JStr (message e2)]])))"

subsection \<open>Reading and writing the log\<close>

text \<open>
  The file is absent, or holds text that \<^verbatim>\<open>JSON.parse\<close> rejects, or holds text that parses to
  a value. File-system failures other than absence are outside the model.
\<close>

datatype logfile = Absent | Corrupt js_error | Holds json

definition readLog :: "logfile \<Rightarrow> js_error + json" where
  "readLog file =
     (case file of
        Absent \<Rightarrow> Inr (JObj [(''site_start'', JNull), (''entries'', JArr [])])
      | Corrupt e \<Rightarrow> Inl e
      | Holds j \<Rightarrow> Inr j)"

text \<open>
  What \<^verbatim>\<open>JSON.parse\<close> reads back from the text \<^verbatim>\<open>JSON.stringify\<close> prints: a Number that is not
  finite is printed as \<^verbatim>\<open>null\<close>, everything else keeps its value.
\<close>

fun reparse :: "json \<Rightarrow> json" where
  "reparse (JNum n) = (case n of Num q \<Rightarrow> JNum n | _ \<Rightarrow> JNull)"
| "reparse (JArr xs) = JArr (map reparse xs)"
| "reparse (JObj kvs) = JObj (map (\<lambda>(k, v). (k, reparse v)) kvs)"
| "reparse v = v"

definition writeLog :: "json \<Rightarrow> logfile" where
  "writeLog doc = Holds (reparse doc)"

subsection \<open>Sources\<close>

text \<open>The addresses the providers request.\<close>

definition FNG_URL :: string where
  "FNG_URL =
     ''https://api.alternative.me/fng/?limit=1&format=json''"

definition FX1_URL :: string where
  "FX1_URL =
     ''https://open.er-api.com/v6/latest/USD''"

definition FX2_URL :: string where
  "FX2_URL =
     ''https://api.frankfurter.app/latest?from=USD&to=IDR''"

definition FX3_URL :: string where
  "FX3_URL =
     ''https://api.exchangerate.host/latest?base=USD&symbols=IDR''"

definition BTC1_URL :: string where
  "BTC1_URL =
     ''https://api.coingecko.com/api/v3/simple/price?ids=bitcoin&vs_currencies=usd,idr''"

definition BTC2_URL :: string where
  "BTC2_URL =
     ''https://api.binance.com/api/v3/ticker/price?symbol=BTCUSDT''"

definition BTC3_URL :: string where
  "BTC3_URL =
     ''https://api.coinbase.com/v2/prices/BTC-USD/spot''"

record fng_quote =
  fng_value :: jsnum
  fng_label :: string
  fng_timestamp :: jsnum

record fx_quote =
  usdIdr :: jsnum
  source :: string

record btc_quote =
  usd :: jsnum
  idr :: jsnum
  sourceNote :: string

definition getFngToday :: "env \<Rightarrow> fng_quote io" where
  "getFngToday env tr =
     (case fetchJson env FNG_URL ''FNG'' tr of
        (Inl e, tr1) \<Rightarrow> (Inl e, tr1)
      | (Inr j, tr1) \<Rightarrow>
          (let d = opt_index (opt_prop (Some j) ''data'') 0 in
           if \<not> truthy d then (Inl (Error ''FNG no data''), tr1)
           else
             (case Number env (opt_prop d ''value'') of
                Inl e \<Rightarrow> (Inl e, tr1)
              | Inr v \<Rightarrow>
                (case String env (opt_prop d ''value_classification'') of
                   Inl e \<Rightarrow> (Inl e, tr1)
                 | Inr l \<Rightarrow>
                   (case Number env (opt_prop d ''timestamp'') of
                      Inl e \<Rightarrow> (Inl e, tr1)
                    | Inr t \<Rightarrow>
                        (Inr \<lparr>fng_value = v, fng_label = l, fng_timestamp = t\<rparr>, tr1))))))"

text \<open>The three exchange-rate providers differ in the address, the label and the source name.\<close>

definition fx_provider :: "string \<Rightarrow> string \<Rightarrow> string \<Rightarrow> env \<Rightarrow> fx_quote io" where
  "fx_provider url label name env tr =
     (case fetchJson env url label tr of
        (Inl e, tr1) \<Rightarrow> (Inl e, tr1)
      | (Inr j, tr1) \<Rightarrow>
          (case Number env (opt_prop (opt_prop (Some j) ''rates'') ''IDR'') of
             Inl e \<Rightarrow> (Inl e, tr1)
           | Inr r \<Rightarrow>
               (if \<not> num_truthy r then (Inl (Error (label @ '' invalid'')), tr1)
                else (Inr \<lparr>usdIdr = r, source = name\<rparr>, tr1))))"

definition fx1 :: "env \<Rightarrow> fx_quote io" where
  "fx1 = fx_provider FX1_URL ''FX1'' ''open.er-api.com''"

definition fx2 :: "env \<Rightarrow> fx_quote io" where
  "fx2 = fx_provider FX2_URL ''FX2'' ''frankfurter.app''"

definition fx3 :: "env \<Rightarrow> fx_quote io" where
  "fx3 = fx_provider FX3_URL ''FX3'' ''exchangerate.host''"

definition getUsdIdr :: "env \<Rightarrow> fx_quote io" where
  "getUsdIdr env = try3 ''FX'' (fx1 env) (fx2 env) (fx3 env)"

definition btc1 :: "env \<Rightarrow> btc_quote io" where
  "btc1 env tr =
     (case fetchJson env BTC1_URL ''BTC1'' tr of
        (Inl e, tr1) \<Rightarrow> (Inl e, tr1)
      | (Inr j, tr1) \<Rightarrow>
          (case Number env (opt_prop (opt_prop (Some j) ''bitcoin'') ''usd'') of
             Inl e \<Rightarrow> (Inl e, tr1)
           | Inr u \<Rightarrow>
             (case Number env (opt_prop (opt_prop (Some j) ''bitcoin'') ''idr'') of
                Inl e \<Rightarrow> (Inl e, tr1)
              | Inr i \<Rightarrow>
                  (if \<not> num_truthy u \<or> \<not> num_truthy i then (Inl (Error ''BTC1 invalid''), tr1)
                   else (Inr \<lparr>usd = u, idr = i, sourceNote = ''BTC: CoinGecko (USD+IDR)''\<rparr>,
                         tr1)))))"

definition btc2 :: "env \<Rightarrow> btc_quote io" where
  "btc2 env tr =
     (case fetchJson env BTC2_URL ''BTC2'' tr of
        (Inl e, tr1) \<Rightarrow> (Inl e, tr1)
      | (Inr j, tr1) \<Rightarrow>
          (case Number env (opt_prop (Some j) ''price'') of
             Inl e \<Rightarrow> (Inl e, tr1)
           | Inr usdt \<Rightarrow>
               (if \<not> num_truthy usdt then (Inl (Error ''BTC2 invalid''), tr1)
                else
                  (case getUsdIdr env tr1 of
                     (Inl e, tr2) \<Rightarrow> (Inl e, tr2)
                   | (Inr fx, tr2) \<Rightarrow>
                       (Inr \<lparr>usd = usdt, idr = multiply env usdt (usdIdr fx),
                             sourceNote = ''BTC: Binance (BTCUSDT) + FX: '' @ source fx\<rparr>,
                        tr2)))))"

definition btc3 :: "env \<Rightarrow> btc_quote io" where
  "btc3 env tr =
     (case fetchJson env BTC3_URL ''BTC3'' tr of
        (Inl e, tr1) \<Rightarrow> (Inl e, tr1)
      | (Inr j, tr1) \<Rightarrow>
          (case Number env (opt_prop (opt_prop (Some j) ''data'') ''amount'') of
             Inl e \<Rightarrow> (Inl e, tr1)
           | Inr u \<Rightarrow>
               (if \<not> num_truthy u then (Inl (Error ''BTC3 invalid''), tr1)
                else
                  (case getUsdIdr env tr1 of
                     (Inl e, tr2) \<Rightarrow> (Inl e, tr2)
                   | (Inr fx, tr2) \<Rightarrow>
                       (Inr \<lparr>usd = u, idr = multiply env u (usdIdr fx),
                             sourceNote = ''BTC: Coinbase (BTC-USD) + FX: '' @ source fx\<rparr>,
                        tr2)))))"

definition getBtcPrice :: "env \<Rightarrow> btc_quote io" where
  "getBtcPrice env = try3 ''BTC'' (btc1 env) (btc2 env) (btc3 env)"

subsection \<open>Main\<close>

text \<open>
  \<^verbatim>\<open>Promise.all([getFngToday(), getBtcPrice()])\<close>. The two operations share no state and
  each reads its own replies, so the pair is run one after the other, both to completion; the
  events of the second are listed after those of the first. When both reject, the promise
  rejects with whichever rejection arrived first, which the environment decides.
\<close>

definition fetch_both :: "env \<Rightarrow> nat \<Rightarrow> (fng_quote \<times> btc_quote) io" where
  "fetch_both env i tr =
     (case getFngToday env tr of
        (r1, tr1) \<Rightarrow>
          (case getBtcPrice env tr1 of
             (r2, tr2) \<Rightarrow>
               (case r1 of
                  Inr fng \<Rightarrow> (case r2 of Inr btc \<Rightarrow> (Inr (fng, btc), tr2) | Inl e2 \<Rightarrow> (Inl e2, tr2))
                | Inl e1 \<Rightarrow>
                    (case r2 of
                       Inr btc \<Rightarrow> (Inl e1, tr2)
                     | Inl e2 \<Rightarrow> (Inl (if fng_rejects_first env i then e1 else e2), tr2)))))"

text \<open>
  The loop \<^verbatim>\<open>for (let i = 0; i < 3; i++)\<close> of lines 149 to 158, from counter \<open>i\<close>. It leaves
  \<^verbatim>\<open>fng\<close> and \<^verbatim>\<open>btc\<close> assigned (\<open>Some\<close>) after a \<^verbatim>\<open>break\<close>, and unassigned (\<open>None\<close>) if its
  condition is false on entry. \<^verbatim>\<open>await sleep(1500)\<close> is the event \<open>Sleep 1500\<close>.
\<close>

function attempts :: "env \<Rightarrow> nat \<Rightarrow> (fng_quote \<times> btc_quote) option io" where
  "attempts env i tr =
     (if i < 3 then
        (case fetch_both env i tr of
           (Inr p, tr1) \<Rightarrow> (Inr (Some p), tr1)
         | (Inl e, tr1) \<Rightarrow>
             (if i < 2 then
                attempts env (i + 1)
                  (tr1 @ [ConsoleLog [JStr ''Attempt'', JNum (Num (of_nat (i + 1))),
                                      JStr ''failed:'', JStr (message e)],
                          Sleep 1500])
              else
                (Inl e,
                 tr1 @ [ConsoleLog [JStr ''Attempt'', JNum (Num (of_nat (i + 1))),
                                    JStr ''failed:'', JStr (message e)]])))
      else (Inr None, tr))"
  by pat_completeness auto
termination
  by (relation "measure (\<lambda>(env, i, tr). 3 - i)") auto

declare attempts.simps [simp del]

text \<open>
  Lines 138 and 139 on the loaded value. Reading a property of \<^verbatim>\<open>null\<close> throws; the module is
  strict code, so creating \<^verbatim>\<open>site_start\<close> on a boolean, number or string throws; on an array
  both assignments succeed but \<^verbatim>\<open>log.entries\<close> is then the inherited method
  \<^verbatim>\<open>Array.prototype.entries\<close>, and line 142 throws before anything is observable. The
  messages of the engine's own errors are abbreviated.
\<close>

definition init_log :: "string \<Rightarrow> json \<Rightarrow> js_error + (string \<times> json) list" where
  "init_log ymd doc =
     (case doc of
        JNull \<Rightarrow> Inl (TypeError ''Cannot read properties of null'')
      | JObj kvs \<Rightarrow>
          (let kvs1 = (if \<not> truthy (map_of kvs ''site_start'')
                       then AList.update ''site_start'' (JStr ymd) kvs else kvs)
           in Inr (AList.update ''entries''
                     (case map_of kvs1 ''entries'' of
                        None \<Rightarrow> JArr []
                      | Some v \<Rightarrow> if truthy (Some v) then v else JArr [])
                     kvs1))
      | JArr xs \<Rightarrow> Inl (TypeError ''log.entries.some is not a function'')
      | _ \<Rightarrow> Inl (TypeError ''Cannot create property site_start''))"

text \<open>The read \<open>e.date\<close> of a value that may be \<^verbatim>\<open>null\<close>.\<close>

definition date_of :: "json \<Rightarrow> js_error + jsval" where
  "date_of e =
     (if e = JNull then Inl (TypeError ''Cannot read properties of null'')
      else Inr (get_prop e ''date''))"

text \<open>\<^verbatim>\<open>log.entries.some((e) => e.date === ymd)\<close>: strict equality with a string, left to right,
  stopping at the first match.\<close>

fun some_date :: "string \<Rightarrow> json list \<Rightarrow> js_error + bool" where
  "some_date ymd [] = Inr False"
| "some_date ymd (e # es) =
     (case date_of e of
        Inl err \<Rightarrow> Inl err
      | Inr d \<Rightarrow> if d = Some (JStr ymd) then Inr True else some_date ymd es)"

definition entries_some :: "string \<Rightarrow> json \<Rightarrow> js_error + bool" where
  "entries_some ymd es =
     (case es of
        JArr xs \<Rightarrow> some_date ymd xs
      | _ \<Rightarrow> Inl (TypeError ''log.entries.some is not a function''))"

text \<open>The comparator of line 172.\<close>

definition compare_dates :: "env \<Rightarrow> json \<Rightarrow> json \<Rightarrow> js_error + int" where
  "compare_dates env a b =
     (case date_of a of Inl e \<Rightarrow> Inl e
      | Inr da \<Rightarrow>
        (case date_of b of Inl e \<Rightarrow> Inl e
         | Inr db \<Rightarrow>
           (case less_than env da db of
              Inl e \<Rightarrow> Inl e
            | Inr lt \<Rightarrow>
                (if lt then Inr (- 1)
                 else (case less_than env db da of
                         Inl e \<Rightarrow> Inl e
                       | Inr gt \<Rightarrow> Inr (if gt then 1 else 0))))))"

text \<open>
  \<^verbatim>\<open>Array.prototype.sort\<close> is stable, and an exception of the comparator propagates. For a
  comparator that orders the elements consistently, every stable sort returns the list that
  insertion computes here. For any other comparator the standard leaves the order to the
  implementation (the result is still a permutation); no theorem below depends on the order
  in that case.
\<close>

fun insert_entry :: "env \<Rightarrow> json \<Rightarrow> json list \<Rightarrow> js_error + json list" where
  "insert_entry env x [] = Inr [x]"
| "insert_entry env x (y # ys) =
     (case compare_dates env x y of
        Inl e \<Rightarrow> Inl e
      | Inr c \<Rightarrow>
          (if c \<le> 0 then Inr (x # y # ys)
           else (case insert_entry env x ys of Inl e \<Rightarrow> Inl e | Inr zs \<Rightarrow> Inr (y # zs))))"

fun sort_entries :: "env \<Rightarrow> json list \<Rightarrow> js_error + json list" where
  "sort_entries env [] = Inr []"
| "sort_entries env (x # xs) =
     (case sort_entries env xs of Inl e \<Rightarrow> Inl e | Inr ys \<Rightarrow> insert_entry env x ys)"

text \<open>Lines 171 and 172: \<^verbatim>\<open>push\<close>, then \<^verbatim>\<open>sort\<close>.\<close>

definition push_sort :: "env \<Rightarrow> json list \<Rightarrow> json \<Rightarrow> js_error + json list" where
  "push_sort env es entry = sort_entries env (es @ [entry])"

text \<open>The object literal of lines 160 to 169.\<close>

definition make_entry :: "env \<Rightarrow> string \<Rightarrow> fng_quote \<Rightarrow> btc_quote \<Rightarrow> json" where
  "make_entry env ymd fng btc =
     JObj [(''date'', JStr ymd),
           (''fng_value'', JNum (fng_value fng)),
           (''fng_label'', JStr (fng_label fng)),
           (''fng_timestamp'', JNum (fng_timestamp fng)),
           (''btc_usd'', JNum (usd btc)),
           (''btc_idr'', JNum (idr btc)),
           (''source'', JStr (sourceNote btc)),
           (''created_at_utc'', JStr (iso_now env))]"

text \<open>
  \<^verbatim>\<open>main\<close>, from the file and the events so far to its completion, the file and the events
  after it.
\<close>

definition main :: "env \<Rightarrow> logfile \<Rightarrow> event list \<Rightarrow> (js_error + unit) \<times> logfile \<times> event list" where
  "main env file tr =
     (let ymd = todayYmdUTC env in
      case readLog file of
        Inl e \<Rightarrow> (Inl e, file, tr)
      | Inr doc \<Rightarrow>
        (case init_log ymd doc of
           Inl e \<Rightarrow> (Inl e, file, tr)
         | Inr kvs \<Rightarrow>
           (case map_of kvs ''entries'' of
              None \<Rightarrow> (Inl (TypeError ''Cannot read properties of undefined''), file, tr)
            | Some es \<Rightarrow>
              (case entries_some ymd es of
                 Inl e \<Rightarrow> (Inl e, file, tr)
               | Inr True \<Rightarrow>
                   (Inr (), file,
                    tr @ [ConsoleLog [JStr ''Already logged for'', JStr ymd, JStr ''- skip.'']])
               | Inr False \<Rightarrow>
                 (case attempts env 0 tr of
                    (Inl e, tr1) \<Rightarrow> (Inl e, file, tr1)
                  | (Inr None, tr1) \<Rightarrow>
                      (Inl (TypeError ''Cannot read properties of undefined''), file, tr1)
                  | (Inr (Some (fng, btc)), tr1) \<Rightarrow>
                    (case es of
                       JArr xs \<Rightarrow>
                         (case push_sort env xs (make_entry env ymd fng btc) of
                            Inl e \<Rightarrow> (Inl e, file, tr1)
                          | Inr ys \<Rightarrow>
                              (Inr (),
                               writeLog (JObj (AList.update ''entries'' (JArr ys) kvs)),
                               tr1 @ [WriteFile (JObj (AList.update ''entries'' (JArr ys) kvs)),
                                      ConsoleLog [JStr ''Wrote entry:'',
                                                  make_entry env ymd fng btc]]))
                     | _ \<Rightarrow> (Inl (TypeError ''log.entries.push is not a function''), file, tr1)))))))"

text \<open>
  The last statement of the module: \<^verbatim>\<open>main().catch(...)\<close>. The process ends with code 0 when
  \<^verbatim>\<open>main\<close> completes, and with \<^verbatim>\<open>process.exit(1)\<close> after a console line when it rejects.
\<close>

definition run :: "env \<Rightarrow> logfile \<Rightarrow> nat \<times> logfile \<times> event list" where
  "run env file =
     (case main env file [] of
        (Inr u, file', tr) \<Rightarrow> (0, file', tr)
      | (Inl e, file', tr) \<Rightarrow> (1, file', tr @ [ConsoleError ''daily.js failed:'' e]))"

subsection \<open>Vocabulary of the properties\<close>

text \<open>The documents written and the addresses requested, read off the events.\<close>

fun writes :: "event list \<Rightarrow> json list" where
  "writes [] = []"
| "writes (WriteFile d # evs) = d # writes evs"
| "writes (ev # evs) = writes evs"

fun requests :: "event list \<Rightarrow> string list" where
  "requests [] = []"
| "requests (Request u # evs) = u # requests evs"
| "requests (ev # evs) = requests evs"

text \<open>
  A value all of whose Numbers are finite. \<^verbatim>\<open>JSON.stringify\<close> prints nothing else, so the
  file holds such a value after every write.
\<close>

fun finite_json :: "json \<Rightarrow> bool" where
  "finite_json (JNum n) = (case n of Num q \<Rightarrow> True | _ \<Rightarrow> False)"
| "finite_json (JArr xs) = list_all finite_json xs"
| "finite_json (JObj kvs) = list_all (\<lambda>kv. finite_json (snd kv)) kvs"
| "finite_json v = True"

fun finite_file :: "logfile \<Rightarrow> bool" where
  "finite_file (Holds doc) = finite_json doc"
| "finite_file f = True"

text \<open>The entries of the persisted document, and those among them dated \<open>ymd\<close>.\<close>

fun entries_of :: "logfile \<Rightarrow> json list" where
  "entries_of (Holds (JObj kvs)) = (case map_of kvs ''entries'' of Some (JArr xs) \<Rightarrow> xs | _ \<Rightarrow> [])"
| "entries_of f = []"

definition dated :: "string \<Rightarrow> json \<Rightarrow> bool" where
  "dated ymd e = (get_prop e ''date'' = Some (JStr ymd))"

text \<open>The persisted \<^verbatim>\<open>site_start\<close> and any other top-level field.\<close>

fun field_of :: "logfile \<Rightarrow> string \<Rightarrow> jsval" where
  "field_of (Holds doc) k = get_prop doc k"
| "field_of f k = None"

text \<open>
  The document loads, is an object, and has no entry for today: \<^verbatim>\<open>main\<close> passes line 145
  and enters the retry loop.
\<close>

definition starts_fetching :: "env \<Rightarrow> logfile \<Rightarrow> bool" where
  "starts_fetching env file =
     (case readLog file of
        Inl e \<Rightarrow> False
      | Inr doc \<Rightarrow>
        (case init_log (todayYmdUTC env) doc of
           Inl e \<Rightarrow> False
         | Inr kvs \<Rightarrow>
           (case map_of kvs ''entries'' of
              None \<Rightarrow> False
            | Some es \<Rightarrow> entries_some (todayYmdUTC env) es = Inr False)))"

text \<open>An entry whose date is a string, and that string.\<close>

fun date_string :: "json \<Rightarrow> string option" where
  "date_string e = (case get_prop e ''date'' of Some (JStr s) \<Rightarrow> Some s | _ \<Rightarrow> None)"

definition date_key :: "json \<Rightarrow> string" where
  "date_key e = (case date_string e of Some s \<Rightarrow> s | None \<Rightarrow> [])"

text \<open>A field that is absent or a scalar: neither an array nor an object.\<close>

fun scalar :: "jsval \<Rightarrow> bool" where
  "scalar (Some (JArr xs)) = False"
| "scalar (Some (JObj kvs)) = False"
| "scalar v = True"

text \<open>
  A field that \<^verbatim>\<open>Number\<close> and \<^verbatim>\<open>String\<close> can convert: its conversion to a primitive does not
  throw.
\<close>

definition converts :: "env \<Rightarrow> jsval \<Rightarrow> bool" where
  "converts env v = (case ToPrimitive env v of Inl e \<Rightarrow> False | Inr p \<Rightarrow> True)"

text \<open>
  A field that the price and exchange-rate providers reject: \<^verbatim>\<open>Number\<close> throws on it, or
  gives \<^verbatim>\<open>NaN\<close> or zero.
\<close>

definition invalid_number :: "env \<Rightarrow> jsval \<Rightarrow> bool" where
  "invalid_number env v = (case Number env v of Inl e \<Rightarrow> True | Inr n \<Rightarrow> \<not> num_truthy n)"

subsection \<open>An environment for the examples\<close>

text \<open>
  The examples run the model in an environment whose floating-point primitives agree with
  the runtime on the values that occur in them: strings of decimal digits and the empty
  string are read as the integer they denote and every other string as \<^verbatim>\<open>NaN\<close>, integers
  below \<open>10^21\<close> are printed in decimal, and products are exact. The clock shows
  5 January 2024.
\<close>

fun digits_value :: "nat \<Rightarrow> string \<Rightarrow> nat option" where
  "digits_value acc [] = Some acc"
| "digits_value acc (c # cs) =
     (if c \<in> set ''0123456789''
      then digits_value (10 * acc + (of_char c - of_char CHR ''0'')) cs
      else None)"

definition example_env :: "(string \<Rightarrow> nat \<Rightarrow> http_reply) \<Rightarrow> env" where
  "example_env replies =
     \<lparr>StringToNumber = (\<lambda>s. case digits_value 0 s of Some n \<Rightarrow> Num (of_nat n) | None \<Rightarrow> NaN),
      NumberToString =
        (\<lambda>n. case n of
                NaN \<Rightarrow> ''NaN''
              | Infinity \<Rightarrow> ''Infinity''
              | NegInfinity \<Rightarrow> ''-Infinity''
              | Num q \<Rightarrow> decimal_int \<lfloor>q\<rfloor>),
      round64 = Num,
      utc_date = (2024, 0, 5),
      iso_now = ''2024-01-05T00:10:00.000Z'',
      reply = replies,
      fng_rejects_first = (\<lambda>i. True)\<rparr>"

definition ok :: "json \<Rightarrow> http_reply" where
  "ok j = Response 200 (Body j)"

definition down :: http_reply where
  "down = NoResponse (TypeError ''fetch failed'')"

text \<open>The replies of the end-to-end examples of the specification.\<close>

definition fng_greed :: json where
  "fng_greed =
     JObj [(''data'', JArr [JObj [(''value'', JStr ''55''),
                                  (''value_classification'', JStr ''Greed''),
                                  (''timestamp'', JStr ''1700000000'')]])]"

definition coingecko_quote :: json where
  "coingecko_quote =
     JObj [(''bitcoin'', JObj [(''usd'', JNum (Num 60000)), (''idr'', JNum (Num 960000000))])]"

definition replies_primary :: "string \<Rightarrow> nat \<Rightarrow> http_reply" where
  "replies_primary url n =
     (if url = FNG_URL then ok fng_greed
      else if url = BTC1_URL then ok coingecko_quote
      else down)"

text \<open>The entry and the document that the first example has to produce.\<close>

definition entry_primary :: json where
  "entry_primary =
     JObj [(''date'', JStr ''2024-01-05''),
           (''fng_value'', JNum (Num 55)),
           (''fng_label'', JStr ''Greed''),
           (''fng_timestamp'', JNum (Num 1700000000)),
           (''btc_usd'', JNum (Num 60000)),
           (''btc_idr'', JNum (Num 960000000)),
           (''source'', JStr ''BTC: CoinGecko (USD+IDR)''),
           (''created_at_utc'', JStr ''2024-01-05T00:10:00.000Z'')]"

definition doc_primary :: json where
  "doc_primary = JObj [(''site_start'', JStr ''2024-01-05''), (''entries'', JArr [entry_primary])]"

text \<open>
  A document of an earlier day with a top-level field of its own, the document the first
  example makes of it, and a document that has no entries yet.
\<close>

definition entry_older :: json where
  "entry_older =
     JObj [(''date'', JStr ''2024-01-04''),
           (''fng_value'', JNum (Num 50)),
           (''fng_label'', JStr ''Neutral''),
           (''fng_timestamp'', JNum (Num 1699913600)),
           (''btc_usd'', JNum (Num 59000)),
           (''btc_idr'', JNum (Num 944000000)),
           (''source'', JStr ''BTC: CoinGecko (USD+IDR)''),
           (''created_at_utc'', JStr ''2024-01-04T00:10:00.000Z'')]"

definition doc_before :: json where
  "doc_before =
     JObj [(''site_start'', JStr ''2024-01-01''), (''schema'', JNum (Num 2)),
           (''entries'', JArr [entry_older])]"

definition doc_after :: json where
  "doc_after =
     JObj [(''site_start'', JStr ''2024-01-01''), (''schema'', JNum (Num 2)),
           (''entries'', JArr [entry_older, entry_primary])]"

definition doc_no_entries :: json where
  "doc_no_entries = JObj [(''site_start'', JStr ''2024-01-01'')]"

definition doc_started :: json where
  "doc_started = JObj [(''site_start'', JStr ''2024-01-01''), (''entries'', JArr [entry_primary])]"

definition replies_secondary :: "string \<Rightarrow> nat \<Rightarrow> http_reply" where
  "replies_secondary url n =
     (if url = FNG_URL then ok fng_greed
      else if url = BTC1_URL then Response 429 (Body JNull)
      else if url = BTC2_URL then ok (JObj [(''symbol'', JStr ''BTCUSDT''), (''price'', JStr ''60000'')])
      else if url = BTC3_URL then ok (JObj [(''data'', JObj [(''amount'', JStr ''60000'')])])
      else if url = FX1_URL then ok (JObj [(''rates'', JObj [(''IDR'', JNum (Num 15800))])])
      else down)"

text \<open>Replies in which a numeric field is zero, missing or not convertible.\<close>

definition fng_zero :: json where
  "fng_zero =
     JObj [(''data'', JArr [JObj [(''value'', JNum (Num 0)),
                                  (''value_classification'', JStr ''Extreme Fear''),
                                  (''timestamp'', JStr ''1700000000'')]])]"

definition replies_zero :: "string \<Rightarrow> nat \<Rightarrow> http_reply" where
  "replies_zero url n =
     (if url = FNG_URL then ok fng_zero
      else if url = FX1_URL then ok (JObj [(''rates'', JObj [(''IDR'', JNum (Num 0))])])
      else if url = FX2_URL then
        (if n = 0 then ok (JObj [(''rates'', JObj [(''IDR'', JStr ''n/a'')])])
         else ok (JObj [(''rates'', JObj [(''IDR'', JNum (Num 15800))])]))
      else if url = FX3_URL then ok (JObj [(''rates'', JObj [])])
      else if url = BTC1_URL then
        ok (JObj [(''bitcoin'', JObj [(''usd'', JNum (Num 60000)), (''idr'', JNum (Num 0))])])
      else if url = BTC2_URL then ok (JObj [(''price'', JStr ''n/a'')])
      else if url = BTC3_URL then ok (JObj [(''data'', JObj [(''amount'', JNull)])])
      else down)"

definition fng_unconvertible :: json where
  "fng_unconvertible =
     JObj [(''data'', JArr [JObj [(''value'', JObj [(''toString'', JNum (Num 0))]),
                                  (''value_classification'', JStr ''Greed''),
                                  (''timestamp'', JStr ''1700000000'')]])]"

definition replies_unconvertible :: "string \<Rightarrow> nat \<Rightarrow> http_reply" where
  "replies_unconvertible url n =
     (if url = FNG_URL then ok fng_unconvertible
      else if url = BTC1_URL then ok coingecko_quote
      else down)"

definition replies_bare :: "string \<Rightarrow> nat \<Rightarrow> http_reply" where
  "replies_bare url n =
     (if url = FNG_URL then
        (if n = 0 then ok (JObj [(''data'', JArr [JObj []])]) else ok (JObj [(''data'', JArr [])]))
      else if url = BTC1_URL then ok coingecko_quote
      else down)"

definition entry_bare :: json where
  "entry_bare =
     JObj [(''date'', JStr ''2024-01-05''),
           (''fng_value'', JNum NaN),
           (''fng_label'', JStr ''undefined''),
           (''fng_timestamp'', JNum NaN),
           (''btc_usd'', JNum (Num 60000)),
           (''btc_idr'', JNum (Num 960000000)),
           (''source'', JStr ''BTC: CoinGecko (USD+IDR)''),
           (''created_at_utc'', JStr ''2024-01-05T00:10:00.000Z'')]"

definition replies_down :: "string \<Rightarrow> nat \<Rightarrow> http_reply" where
  "replies_down url n = down"

text \<open>The events of one attempt of the retry loop when no service answers.\<close>

definition down_events :: "event list" where
  "down_events =
     [Request FNG_URL, Request BTC1_URL,
      ConsoleLog [JStr ''BTC #1 fail:'', JStr ''fetch failed''], Request BTC2_URL,
      ConsoleLog [JStr ''BTC #2 fail:'', JStr ''fetch failed''], Request BTC3_URL]"

definition attempt_failed :: "rat \<Rightarrow> event" where
  "attempt_failed i =
     ConsoleLog [JStr ''Attempt'', JNum (Num i), JStr ''failed:'', JStr ''fetch failed'']"

section \<open>Properties\<close>

subsection \<open>The fallback chain\<close>

text \<open>
  Claim C2. \<^verbatim>\<open>try3\<close> returns the result of the first provider that succeeds, together with
  the events up to that success, whatever the later providers are: they are not run. The
  second provider starts from the events of the failed first one followed by the line
  \<^verbatim>\<open>#1 fail\<close>, the third from those of the failed second one followed by \<^verbatim>\<open>#2 fail\<close>, and
  the outcome of the third, success or failure, is the outcome of the chain, unchanged and
  without a further console line.
\<close>

theorem try3_first_success_else_third:
  "(f1 tr = (Inr v, tr1) \<longrightarrow> (\<forall>g2 g3. try3 label f1 g2 g3 tr = (Inr v, tr1)))
 \<and> (f1 tr = (Inl e1, tr1) \<and>
     f2 (tr1 @ [ConsoleLog [JStr (label @ '' #1 fail:''), JStr (message e1)]]) = (Inr v, tr2)
     \<longrightarrow> (\<forall>g3. try3 label f1 f2 g3 tr = (Inr v, tr2)))
 \<and> (f1 tr = (Inl e1, tr1) \<and>
     f2 (tr1 @ [ConsoleLog [JStr (label @ '' #1 fail:''), JStr (message e1)]]) = (Inl e2, tr2)
     \<longrightarrow> try3 label f1 f2 f3 tr =
           f3 (tr2 @ [ConsoleLog [JStr (label @ '' #2 fail:''), JStr (message e2)]]))"
  by (simp add: try3_def)

theorem try3_first_success_else_third_witness:
  "try3 ''T'' (\<lambda>tr. (Inr (1::nat), tr @ [Request ''a'']))
     (\<lambda>tr. (Inr 2, tr @ [Request ''b''])) (\<lambda>tr. (Inr 3, tr @ [Request ''c''])) []
   = (Inr 1, [Request ''a''])
 \<and> try3 ''T'' (\<lambda>tr. (Inl (Error ''down''), tr @ [Request ''a'']))
     (\<lambda>tr. (Inr (2::nat), tr @ [Request ''b''])) (\<lambda>tr. (Inr 3, tr @ [Request ''c''])) []
   = (Inr 2, [Request ''a'', ConsoleLog [JStr ''T #1 fail:'', JStr ''down''], Request ''b''])
 \<and> try3 ''T'' (\<lambda>tr. (Inl (Error ''down''), tr @ [Request ''a'']))
     (\<lambda>tr. (Inl (Error ''busy''), tr @ [Request ''b'']))
     (\<lambda>tr. (Inl (Error ''gone'') :: js_error + nat, tr @ [Request ''c''])) []
   = (Inl (Error ''gone''),
      [Request ''a'', ConsoleLog [JStr ''T #1 fail:'', JStr ''down''], Request ''b'',
       ConsoleLog [JStr ''T #2 fail:'', JStr ''busy''], Request ''c''])"
  using
    try3_first_success_else_third
      [where ?f1.0 = "\<lambda>tr. (Inr (1::nat), tr @ [Request ''a''])" and tr = "[]" and v = 1
         and ?tr1.0 = "[Request ''a'']" and label = "''T''"]
    try3_first_success_else_third
      [where ?f1.0 = "\<lambda>tr. (Inl (Error ''down'') :: js_error + nat, tr @ [Request ''a''])"
         and tr = "[]" and v = 2 and ?tr1.0 = "[Request ''a'']" and label = "''T''"
         and ?e1.0 = "Error ''down''"
         and ?f2.0 = "\<lambda>tr. (Inr (2::nat), tr @ [Request ''b''])"
         and ?tr2.0 = "[Request ''a'', ConsoleLog [JStr ''T #1 fail:'', JStr ''down''],
                        Request ''b'']"]
    try3_first_success_else_third
      [where ?f1.0 = "\<lambda>tr. (Inl (Error ''down'') :: js_error + nat, tr @ [Request ''a''])"
         and tr = "[]" and ?tr1.0 = "[Request ''a'']" and label = "''T''"
         and ?e1.0 = "Error ''down''" and ?e2.0 = "Error ''busy''"
         and ?f2.0 = "\<lambda>tr. (Inl (Error ''busy''), tr @ [Request ''b''])"
         and ?f3.0 = "\<lambda>tr. (Inl (Error ''gone''), tr @ [Request ''c''])"
         and ?tr2.0 = "[Request ''a'', ConsoleLog [JStr ''T #1 fail:'', JStr ''down''],
                        Request ''b'']"]
  by simp

subsection \<open>Price providers that convert through the exchange rate\<close>

lemmas url_defs =
  FNG_URL_def FX1_URL_def FX2_URL_def FX3_URL_def BTC1_URL_def BTC2_URL_def BTC3_URL_def

lemma fx_provider_source:
  "fx_provider url label name env t = (Inr q, t') \<Longrightarrow> source q = name"
  by (auto simp: fx_provider_def split: prod.splits sum.splits if_splits)

lemma getUsdIdr_winner:
  assumes "getUsdIdr env tr = (Inr fx, tr2)"
  shows "(\<exists>t. fx1 env t = (Inr fx, tr2) \<and> source fx = ''open.er-api.com'')
       \<or> (\<exists>t. fx2 env t = (Inr fx, tr2) \<and> source fx = ''frankfurter.app'')
       \<or> (\<exists>t. fx3 env t = (Inr fx, tr2) \<and> source fx = ''exchangerate.host'')"
  using assms fx_provider_source[of FX1_URL "''FX1''" "''open.er-api.com''" env]
    fx_provider_source[of FX2_URL "''FX2''" "''frankfurter.app''" env]
    fx_provider_source[of FX3_URL "''FX3''" "''exchangerate.host''" env]
  unfolding getUsdIdr_def try3_def fx1_def fx2_def fx3_def
  by (fastforce split: prod.splits sum.splits)

text \<open>
  Claim C6. When the request of \<^verbatim>\<open>btc2\<close> (respectively \<^verbatim>\<open>btc3\<close>) returns a body whose price
  converts to a Number \<open>u\<close> that is neither \<^verbatim>\<open>NaN\<close> nor zero, and the exchange-rate chain then
  returns the quote \<open>fx\<close>, the provider returns the price \<open>u\<close> in USD, the product of \<open>u\<close> and
  the rate of \<open>fx\<close> as the local price, and a note made of its own name and the source name
  of \<open>fx\<close>. That \<open>fx\<close> is the quote of the exchange-rate provider that won the chain, and its
  source name is the name of that provider.
\<close>

theorem usd_only_price_times_fx_rate:
  "(fetchJson env BTC2_URL ''BTC2'' tr = (Inr j, tr1) \<and>
    Number env (opt_prop (Some j) ''price'') = Inr u \<and> num_truthy u \<and>
    getUsdIdr env tr1 = (Inr fx, tr2)
    \<longrightarrow> btc2 env tr =
          (Inr \<lparr>usd = u, idr = multiply env u (usdIdr fx),
                sourceNote = ''BTC: Binance (BTCUSDT) + FX: '' @ source fx\<rparr>, tr2))
 \<and> (fetchJson env BTC3_URL ''BTC3'' tr = (Inr j, tr1) \<and>
    Number env (opt_prop (opt_prop (Some j) ''data'') ''amount'') = Inr u \<and> num_truthy u \<and>
    getUsdIdr env tr1 = (Inr fx, tr2)
    \<longrightarrow> btc3 env tr =
          (Inr \<lparr>usd = u, idr = multiply env u (usdIdr fx),
                sourceNote = ''BTC: Coinbase (BTC-USD) + FX: '' @ source fx\<rparr>, tr2))
 \<and> (getUsdIdr env tr1 = (Inr fx, tr2)
    \<longrightarrow> (\<exists>t. fx1 env t = (Inr fx, tr2) \<and> source fx = ''open.er-api.com'')
        \<or> (\<exists>t. fx2 env t = (Inr fx, tr2) \<and> source fx = ''frankfurter.app'')
        \<or> (\<exists>t. fx3 env t = (Inr fx, tr2) \<and> source fx = ''exchangerate.host''))"
proof (intro conjI impI)
  assume "fetchJson env BTC2_URL ''BTC2'' tr = (Inr j, tr1) \<and>
    Number env (opt_prop (Some j) ''price'') = Inr u \<and> num_truthy u \<and>
    getUsdIdr env tr1 = (Inr fx, tr2)"
  then show "btc2 env tr =
          (Inr \<lparr>usd = u, idr = multiply env u (usdIdr fx),
                sourceNote = ''BTC: Binance (BTCUSDT) + FX: '' @ source fx\<rparr>, tr2)"
    by (simp add: btc2_def)
next
  assume "fetchJson env BTC3_URL ''BTC3'' tr = (Inr j, tr1) \<and>
    Number env (opt_prop (opt_prop (Some j) ''data'') ''amount'') = Inr u \<and> num_truthy u \<and>
    getUsdIdr env tr1 = (Inr fx, tr2)"
  then show "btc3 env tr =
          (Inr \<lparr>usd = u, idr = multiply env u (usdIdr fx),
                sourceNote = ''BTC: Coinbase (BTC-USD) + FX: '' @ source fx\<rparr>, tr2)"
    by (simp add: btc3_def)
next
  assume "getUsdIdr env tr1 = (Inr fx, tr2)"
  then show "(\<exists>t. fx1 env t = (Inr fx, tr2) \<and> source fx = ''open.er-api.com'')
        \<or> (\<exists>t. fx2 env t = (Inr fx, tr2) \<and> source fx = ''frankfurter.app'')
        \<or> (\<exists>t. fx3 env t = (Inr fx, tr2) \<and> source fx = ''exchangerate.host'')"
    by (rule getUsdIdr_winner)
qed

text \<open>
  The second end-to-end example of the specification: a price of 60000 USDT and a rate of
  15800 from the first exchange-rate provider give 948000000.
\<close>

lemma fetch_btc2_secondary:
  "fetchJson (example_env replies_secondary) BTC2_URL ''BTC2'' tr =
     (Inr (JObj [(''symbol'', JStr ''BTCUSDT''), (''price'', JStr ''60000'')]),
      tr @ [Request BTC2_URL])"
  by (simp add: fetchJson_def example_env_def replies_secondary_def ok_def url_defs)

lemma fetch_btc3_secondary:
  "fetchJson (example_env replies_secondary) BTC3_URL ''BTC3'' tr =
     (Inr (JObj [(''data'', JObj [(''amount'', JStr ''60000'')])]), tr @ [Request BTC3_URL])"
  by (simp add: fetchJson_def example_env_def replies_secondary_def ok_def url_defs)

lemma fx1_secondary:
  "fx1 (example_env replies_secondary) tr =
     (Inr \<lparr>usdIdr = Num 15800, source = ''open.er-api.com''\<rparr>, tr @ [Request FX1_URL])"
  by (simp add: fx1_def fx_provider_def fetchJson_def example_env_def replies_secondary_def
      ok_def url_defs Number_def)

lemma getUsdIdr_secondary:
  "getUsdIdr (example_env replies_secondary) tr =
     (Inr \<lparr>usdIdr = Num 15800, source = ''open.er-api.com''\<rparr>, tr @ [Request FX1_URL])"
  by (simp add: getUsdIdr_def try3_def fx1_secondary)

lemma number_60000: "Number (example_env r) (Some (JStr ''60000'')) = Inr (Num 60000)"
  by (simp add: Number_def example_env_def)

theorem usd_only_price_times_fx_rate_witness:
  "btc2 (example_env replies_secondary) [] =
     (Inr \<lparr>usd = Num 60000, idr = Num 948000000,
           sourceNote = ''BTC: Binance (BTCUSDT) + FX: open.er-api.com''\<rparr>,
      [Request BTC2_URL, Request FX1_URL])
 \<and> btc3 (example_env replies_secondary) [] =
     (Inr \<lparr>usd = Num 60000, idr = Num 948000000,
           sourceNote = ''BTC: Coinbase (BTC-USD) + FX: open.er-api.com''\<rparr>,
      [Request BTC3_URL, Request FX1_URL])
 \<and> fx1 (example_env replies_secondary) [Request BTC2_URL] =
     (Inr \<lparr>usdIdr = Num 15800, source = ''open.er-api.com''\<rparr>,
      [Request BTC2_URL, Request FX1_URL])"
  using
    usd_only_price_times_fx_rate
      [where env = "example_env replies_secondary" and tr = "[]"
         and j = "JObj [(''symbol'', JStr ''BTCUSDT''), (''price'', JStr ''60000'')]"
         and ?tr1.0 = "[Request BTC2_URL]" and u = "Num 60000"
         and fx = "\<lparr>usdIdr = Num 15800, source = ''open.er-api.com''\<rparr>"
         and ?tr2.0 = "[Request BTC2_URL, Request FX1_URL]"]
    usd_only_price_times_fx_rate
      [where env = "example_env replies_secondary" and tr = "[]"
         and j = "JObj [(''data'', JObj [(''amount'', JStr ''60000'')])]"
         and ?tr1.0 = "[Request BTC3_URL]" and u = "Num 60000"
         and fx = "\<lparr>usdIdr = Num 15800, source = ''open.er-api.com''\<rparr>"
         and ?tr2.0 = "[Request BTC3_URL, Request FX1_URL]"]
  by (simp add: fetch_btc2_secondary fetch_btc3_secondary getUsdIdr_secondary number_60000
      fx1_secondary)
    (simp add: example_env_def)

subsection \<open>Validation of numeric fields\<close>

lemma Number_error_iff: "(\<exists>e. Number env v = Inl e) \<longleftrightarrow> \<not> converts env v"
  by (simp add: Number_def converts_def split: sum.splits)

lemma String_error_iff: "(\<exists>e. String env v = Inl e) \<longleftrightarrow> \<not> converts env v"
proof (cases v)
  case None
  then show ?thesis by (simp add: String_def converts_def)
next
  case (Some j)
  then show ?thesis
    by (cases j) (auto simp: String_def converts_def split: sum.splits)
qed

lemma scalar_converts: "scalar v \<Longrightarrow> converts env v"
proof (cases v)
  case None
  then show ?thesis by (simp add: converts_def)
next
  case (Some j)
  assume "scalar v"
  with Some show ?thesis by (cases j) (simp_all add: converts_def)
qed

lemma fx_provider_invalid:
  "fetchJson env url label tr = (Inr j, tr1) \<Longrightarrow>
   invalid_number env (opt_prop (opt_prop (Some j) ''rates'') ''IDR'') \<Longrightarrow>
   \<exists>e. fx_provider url label name env tr = (Inl e, tr1)"
  by (auto simp: fx_provider_def invalid_number_def split: sum.splits)

text \<open>
  Claim C5, for the price and exchange-rate providers. When the request returns a body, and
  a numeric field the provider reads is invalid (\<^verbatim>\<open>Number\<close> throws on it or gives \<^verbatim>\<open>NaN\<close> or
  zero), the provider fails, having made no further request. A missing field, the number
  zero, \<^verbatim>\<open>NaN\<close> and a string that reads as \<^verbatim>\<open>NaN\<close> are invalid. When the first exchange-rate
  provider fails and the second succeeds, the chain returns the quote of the second.
\<close>

theorem price_and_fx_providers_reject_invalid_numbers:
  "(fetchJson env FX1_URL ''FX1'' tr = (Inr j, tr1) \<and>
    invalid_number env (opt_prop (opt_prop (Some j) ''rates'') ''IDR'')
    \<longrightarrow> (\<exists>e. fx1 env tr = (Inl e, tr1)))
 \<and> (fetchJson env FX2_URL ''FX2'' tr = (Inr j, tr1) \<and>
    invalid_number env (opt_prop (opt_prop (Some j) ''rates'') ''IDR'')
    \<longrightarrow> (\<exists>e. fx2 env tr = (Inl e, tr1)))
 \<and> (fetchJson env FX3_URL ''FX3'' tr = (Inr j, tr1) \<and>
    invalid_number env (opt_prop (opt_prop (Some j) ''rates'') ''IDR'')
    \<longrightarrow> (\<exists>e. fx3 env tr = (Inl e, tr1)))
 \<and> (fetchJson env BTC1_URL ''BTC1'' tr = (Inr j, tr1) \<and>
    (invalid_number env (opt_prop (opt_prop (Some j) ''bitcoin'') ''usd'') \<or>
     invalid_number env (opt_prop (opt_prop (Some j) ''bitcoin'') ''idr''))
    \<longrightarrow> (\<exists>e. btc1 env tr = (Inl e, tr1)))
 \<and> (fetchJson env BTC2_URL ''BTC2'' tr = (Inr j, tr1) \<and>
    invalid_number env (opt_prop (Some j) ''price'')
    \<longrightarrow> (\<exists>e. btc2 env tr = (Inl e, tr1)))
 \<and> (fetchJson env BTC3_URL ''BTC3'' tr = (Inr j, tr1) \<and>
    invalid_number env (opt_prop (opt_prop (Some j) ''data'') ''amount'')
    \<longrightarrow> (\<exists>e. btc3 env tr = (Inl e, tr1)))
 \<and> invalid_number env None
 \<and> invalid_number env (Some (JNum (Num 0)))
 \<and> invalid_number env (Some (JNum NaN))
 \<and> (StringToNumber env s = NaN \<longrightarrow> invalid_number env (Some (JStr s)))
 \<and> (fx1 env tr = (Inl e1, tr1) \<and>
    fx2 env (tr1 @ [ConsoleLog [JStr ''FX #1 fail:'', JStr (message e1)]]) = (Inr q, tr2)
    \<longrightarrow> getUsdIdr env tr = (Inr q, tr2))"
proof -
  have b1: "\<exists>e. btc1 env tr = (Inl e, tr1)"
    if "fetchJson env BTC1_URL ''BTC1'' tr = (Inr j, tr1)"
      and "invalid_number env (opt_prop (opt_prop (Some j) ''bitcoin'') ''usd'') \<or>
           invalid_number env (opt_prop (opt_prop (Some j) ''bitcoin'') ''idr'')"
    using that by (auto simp: btc1_def invalid_number_def split: sum.splits)
  have b2: "\<exists>e. btc2 env tr = (Inl e, tr1)"
    if "fetchJson env BTC2_URL ''BTC2'' tr = (Inr j, tr1)"
      and "invalid_number env (opt_prop (Some j) ''price'')"
    using that by (auto simp: btc2_def invalid_number_def split: sum.splits)
  have b3: "\<exists>e. btc3 env tr = (Inl e, tr1)"
    if "fetchJson env BTC3_URL ''BTC3'' tr = (Inr j, tr1)"
      and "invalid_number env (opt_prop (opt_prop (Some j) ''data'') ''amount'')"
    using that by (auto simp: btc3_def invalid_number_def split: sum.splits)
  have inv: "invalid_number env None" "invalid_number env (Some (JNum (Num 0)))"
    "invalid_number env (Some (JNum NaN))"
    "StringToNumber env s = NaN \<longrightarrow> invalid_number env (Some (JStr s))"
    by (simp_all add: invalid_number_def Number_def)
  have chain: "getUsdIdr env tr = (Inr q, tr2)"
    if "fx1 env tr = (Inl e1, tr1)"
      and "fx2 env (tr1 @ [ConsoleLog [JStr ''FX #1 fail:'', JStr (message e1)]]) = (Inr q, tr2)"
    using that by (simp add: getUsdIdr_def try3_def)
  show ?thesis
    using fx_provider_invalid[of env FX1_URL "''FX1''" tr j tr1 "''open.er-api.com''"]
      fx_provider_invalid[of env FX2_URL "''FX2''" tr j tr1 "''frankfurter.app''"]
      fx_provider_invalid[of env FX3_URL "''FX3''" tr j tr1 "''exchangerate.host''"]
      b1 b2 b3 inv chain
    unfolding fx1_def fx2_def fx3_def by blast
qed

text \<open>
  The example of the claim: the first exchange-rate provider answers with a rate of 0 and
  fails, and the chain goes on to the second. The other providers fail on a string that is
  not a number, a missing field, a zero and a \<^verbatim>\<open>null\<close>.
\<close>

lemma fetchJson_example:
  "fetchJson (example_env R) url label tr =
     (case R url (count_list tr (Request url)) of
        NoResponse e \<Rightarrow> (Inl e, tr @ [Request url])
      | Response status body \<Rightarrow>
          (if \<not> (200 \<le> status \<and> status \<le> 299)
           then (Inl (Error (label @ '' HTTP '' @ decimal status)), tr @ [Request url])
           else (case body of
                   BodyFails e \<Rightarrow> (Inl e, tr @ [Request url])
                 | Body j \<Rightarrow> (Inr j, tr @ [Request url]))))"
  by (simp add: fetchJson_def example_env_def)

lemma Number_example:
  "Number (example_env R) None = Inr NaN"
  "Number (example_env R) (Some JNull) = Inr (Num 0)"
  "Number (example_env R) (Some (JNum n)) = Inr n"
  "Number (example_env R) (Some (JStr s)) =
     Inr (case digits_value 0 s of Some n \<Rightarrow> Num (of_nat n) | None \<Rightarrow> NaN)"
  by (simp_all add: Number_def example_env_def)

lemma fetch_zero:
  "fetchJson (example_env replies_zero) FX1_URL ''FX1'' [] =
     (Inr (JObj [(''rates'', JObj [(''IDR'', JNum (Num 0))])]), [Request FX1_URL])"
  "fetchJson (example_env replies_zero) FX2_URL ''FX2'' [] =
     (Inr (JObj [(''rates'', JObj [(''IDR'', JStr ''n/a'')])]), [Request FX2_URL])"
  "fetchJson (example_env replies_zero) FX3_URL ''FX3'' [] =
     (Inr (JObj [(''rates'', JObj [])]), [Request FX3_URL])"
  "fetchJson (example_env replies_zero) BTC1_URL ''BTC1'' [] =
     (Inr (JObj [(''bitcoin'', JObj [(''usd'', JNum (Num 60000)), (''idr'', JNum (Num 0))])]),
      [Request BTC1_URL])"
  "fetchJson (example_env replies_zero) BTC2_URL ''BTC2'' [] =
     (Inr (JObj [(''price'', JStr ''n/a'')]), [Request BTC2_URL])"
  "fetchJson (example_env replies_zero) BTC3_URL ''BTC3'' [] =
     (Inr (JObj [(''data'', JObj [(''amount'', JNull)])]), [Request BTC3_URL])"
  by (simp_all add: fetchJson_example replies_zero_def ok_def url_defs)

lemma fx_zero:
  "fx1 (example_env replies_zero) [] = (Inl (Error ''FX1 invalid''), [Request FX1_URL])"
  "fx2 (example_env replies_zero) [] = (Inl (Error ''FX2 invalid''), [Request FX2_URL])"
  "fx3 (example_env replies_zero) [] = (Inl (Error ''FX3 invalid''), [Request FX3_URL])"
  by (simp_all add: fx1_def fx2_def fx3_def fx_provider_def fetch_zero Number_example)

lemma btc_zero:
  "btc1 (example_env replies_zero) [] = (Inl (Error ''BTC1 invalid''), [Request BTC1_URL])"
  "btc2 (example_env replies_zero) [] = (Inl (Error ''BTC2 invalid''), [Request BTC2_URL])"
  "btc3 (example_env replies_zero) [] = (Inl (Error ''BTC3 invalid''), [Request BTC3_URL])"
  by (simp_all add: btc1_def btc2_def btc3_def fetch_zero Number_example)

lemma fx_zero_retry:
  "fx1 (example_env replies_zero) [Request FX2_URL] =
     (Inl (Error ''FX1 invalid''), [Request FX2_URL, Request FX1_URL])"
  "fx2 (example_env replies_zero)
     [Request FX2_URL, Request FX1_URL, ConsoleLog [JStr ''FX #1 fail:'', JStr ''FX1 invalid'']] =
     (Inr \<lparr>usdIdr = Num 15800, source = ''frankfurter.app''\<rparr>,
      [Request FX2_URL, Request FX1_URL, ConsoleLog [JStr ''FX #1 fail:'', JStr ''FX1 invalid''],
       Request FX2_URL])"
  by (simp_all add: fx1_def fx2_def fx_provider_def fetchJson_example replies_zero_def ok_def
      url_defs Number_example)

theorem price_and_fx_providers_reject_invalid_numbers_witness:
  "fx1 (example_env replies_zero) [] = (Inl (Error ''FX1 invalid''), [Request FX1_URL])
 \<and> fx2 (example_env replies_zero) [] = (Inl (Error ''FX2 invalid''), [Request FX2_URL])
 \<and> fx3 (example_env replies_zero) [] = (Inl (Error ''FX3 invalid''), [Request FX3_URL])
 \<and> btc1 (example_env replies_zero) [] = (Inl (Error ''BTC1 invalid''), [Request BTC1_URL])
 \<and> btc2 (example_env replies_zero) [] = (Inl (Error ''BTC2 invalid''), [Request BTC2_URL])
 \<and> btc3 (example_env replies_zero) [] = (Inl (Error ''BTC3 invalid''), [Request BTC3_URL])
 \<and> invalid_number (example_env replies_zero) (Some (JStr ''n/a''))
 \<and> getUsdIdr (example_env replies_zero) [Request FX2_URL] =
     (Inr \<lparr>usdIdr = Num 15800, source = ''frankfurter.app''\<rparr>,
      [Request FX2_URL, Request FX1_URL, ConsoleLog [JStr ''FX #1 fail:'', JStr ''FX1 invalid''],
       Request FX2_URL])"
  using
    price_and_fx_providers_reject_invalid_numbers
      [where env = "example_env replies_zero" and tr = "[]" and s = "''n/a''"
         and j = "JObj [(''rates'', JObj [(''IDR'', JNum (Num 0))])]"
         and ?tr1.0 = "[Request FX1_URL]"]
    price_and_fx_providers_reject_invalid_numbers
      [where env = "example_env replies_zero" and tr = "[]"
         and j = "JObj [(''rates'', JObj [(''IDR'', JStr ''n/a'')])]"
         and ?tr1.0 = "[Request FX2_URL]"]
    price_and_fx_providers_reject_invalid_numbers
      [where env = "example_env replies_zero" and tr = "[]"
         and j = "JObj [(''rates'', JObj [])]" and ?tr1.0 = "[Request FX3_URL]"]
    price_and_fx_providers_reject_invalid_numbers
      [where env = "example_env replies_zero" and tr = "[]"
         and j = "JObj [(''bitcoin'', JObj [(''usd'', JNum (Num 60000)),
                                            (''idr'', JNum (Num 0))])]"
         and ?tr1.0 = "[Request BTC1_URL]"]
    price_and_fx_providers_reject_invalid_numbers
      [where env = "example_env replies_zero" and tr = "[]"
         and j = "JObj [(''price'', JStr ''n/a'')]" and ?tr1.0 = "[Request BTC2_URL]"]
    price_and_fx_providers_reject_invalid_numbers
      [where env = "example_env replies_zero" and tr = "[]"
         and j = "JObj [(''data'', JObj [(''amount'', JNull)])]"
         and ?tr1.0 = "[Request BTC3_URL]"]
    price_and_fx_providers_reject_invalid_numbers
      [where env = "example_env replies_zero" and tr = "[Request FX2_URL]"
         and ?e1.0 = "Error ''FX1 invalid''"
         and ?tr1.0 = "[Request FX2_URL, Request FX1_URL]"
         and q = "\<lparr>usdIdr = Num 15800, source = ''frankfurter.app''\<rparr>"
         and ?tr2.0 = "[Request FX2_URL, Request FX1_URL,
                        ConsoleLog [JStr ''FX #1 fail:'', JStr ''FX1 invalid''],
                        Request FX2_URL]"]
  by (simp add: fetch_zero fx_zero btc_zero fx_zero_retry invalid_number_def Number_example)

text \<open>
  Claim C5 as stated includes the sentiment provider, which does not validate: a reply whose
  value is the number zero is accepted, and the quote carries the zero.
\<close>

theorem sentiment_zero_is_accepted_counterexample:
  "fetchJson (example_env replies_zero) FNG_URL ''FNG'' [] = (Inr fng_zero, [Request FNG_URL])
 \<and> opt_prop (opt_index (opt_prop (Some fng_zero) ''data'') 0) ''value'' = Some (JNum (Num 0))
 \<and> invalid_number (example_env replies_zero) (Some (JNum (Num 0)))
 \<and> getFngToday (example_env replies_zero) [] =
     (Inr \<lparr>fng_value = Num 0, fng_label = ''Extreme Fear'', fng_timestamp = Num 1700000000\<rparr>,
      [Request FNG_URL])"
  by (simp add: getFngToday_def fetchJson_example replies_zero_def ok_def fng_zero_def
      invalid_number_def Number_example String_def)

subsection \<open>What the providers and the retry loop leave in the trace\<close>

lemma writes_append [simp]: "writes (a @ b) = writes a @ writes b"
  by (induction a rule: writes.induct) simp_all

lemma requests_append [simp]: "requests (a @ b) = requests a @ requests b"
  by (induction a rule: requests.induct) simp_all

lemma fetchJson_writes: "fetchJson env u l tr = (r, t) \<Longrightarrow> writes t = writes tr"
  by (auto simp: fetchJson_def split: http_reply.splits http_body.splits if_splits)

lemma try3_writes:
  assumes f1: "\<And>tr r t. f1 tr = (r, t) \<Longrightarrow> writes t = writes tr"
    and f2: "\<And>tr r t. f2 tr = (r, t) \<Longrightarrow> writes t = writes tr"
    and f3: "\<And>tr r t. f3 tr = (r, t) \<Longrightarrow> writes t = writes tr"
    and run: "try3 l f1 f2 f3 tr = (r, t)"
  shows "writes t = writes tr"
proof (cases "f1 tr")
  case (Pair r1 t1)
  note p1 = Pair
  show ?thesis
  proof (cases r1)
    case (Inr v)
    with p1 run f1[OF p1] show ?thesis by (simp add: try3_def)
  next
    case (Inl e1)
    note i1 = Inl
    let ?s = "t1 @ [ConsoleLog [JStr (l @ '' #1 fail:''), JStr (message e1)]]"
    show ?thesis
    proof (cases "f2 ?s")
      case (Pair r2 t2)
      note p2 = Pair
      show ?thesis
      proof (cases r2)
        case (Inr v)
        with p1 i1 p2 run f1[OF p1] f2[OF p2] show ?thesis by (simp add: try3_def)
      next
        case (Inl e2)
        with p1 i1 p2 run have "f3 (t2 @ [ConsoleLog [JStr (l @ '' #2 fail:''), JStr (message e2)]]) = (r, t)"
          by (simp add: try3_def)
        from f3[OF this] f1[OF p1] f2[OF p2] show ?thesis by simp
      qed
    qed
  qed
qed

lemma getFngToday_writes: "getFngToday env tr = (r, t) \<Longrightarrow> writes t = writes tr"
  by (auto simp: getFngToday_def Let_def split: prod.splits sum.splits if_splits
      dest: fetchJson_writes)

lemma fx_provider_writes: "fx_provider u l n env tr = (r, t) \<Longrightarrow> writes t = writes tr"
  by (auto simp: fx_provider_def split: prod.splits sum.splits if_splits dest: fetchJson_writes)

lemma getUsdIdr_writes: "getUsdIdr env tr = (r, t) \<Longrightarrow> writes t = writes tr"
  unfolding getUsdIdr_def fx1_def fx2_def fx3_def
  by (rule try3_writes[where ?f1.0 = "fx_provider FX1_URL ''FX1'' ''open.er-api.com'' env"
        and ?f2.0 = "fx_provider FX2_URL ''FX2'' ''frankfurter.app'' env"
        and ?f3.0 = "fx_provider FX3_URL ''FX3'' ''exchangerate.host'' env"])
     (auto dest: fx_provider_writes)

lemma btc1_writes: "btc1 env tr = (r, t) \<Longrightarrow> writes t = writes tr"
  by (auto simp: btc1_def split: prod.splits sum.splits if_splits dest: fetchJson_writes)

lemma btc2_writes: "btc2 env tr = (r, t) \<Longrightarrow> writes t = writes tr"
  by (auto simp: btc2_def split: prod.splits sum.splits if_splits
      dest!: fetchJson_writes getUsdIdr_writes)

lemma btc3_writes: "btc3 env tr = (r, t) \<Longrightarrow> writes t = writes tr"
  by (auto simp: btc3_def split: prod.splits sum.splits if_splits
      dest!: fetchJson_writes getUsdIdr_writes)

lemma getBtcPrice_writes: "getBtcPrice env tr = (r, t) \<Longrightarrow> writes t = writes tr"
  unfolding getBtcPrice_def
  by (rule try3_writes[where ?f1.0 = "btc1 env" and ?f2.0 = "btc2 env" and ?f3.0 = "btc3 env"])
     (auto dest: btc1_writes btc2_writes btc3_writes)

lemma fetch_both_writes: "fetch_both env i tr = (r, t) \<Longrightarrow> writes t = writes tr"
  by (auto simp: fetch_both_def split: prod.splits sum.splits
      dest!: getFngToday_writes getBtcPrice_writes)

lemma attempts_writes: "attempts env i tr = (r, t) \<Longrightarrow> writes t = writes tr"
proof (induction env i tr arbitrary: r t rule: attempts.induct)
  case (1 env i tr)
  show ?case
  proof (cases "i < 3")
    case False
    with "1.prems" show ?thesis by (simp add: attempts.simps[of env i tr])
  next
    case True
    obtain r1 t1 where fb: "fetch_both env i tr = (r1, t1)" by (cases "fetch_both env i tr")
    note w = fetch_both_writes[OF fb]
    show ?thesis
    proof (cases r1)
      case (Inr p)
      with True fb "1.prems" w show ?thesis by (simp add: attempts.simps[of env i tr])
    next
      case (Inl e)
      show ?thesis
      proof (cases "i < 2")
        case True
        with \<open>i < 3\<close> fb Inl "1.prems" "1.IH"[OF \<open>i < 3\<close> fb[symmetric] _ True, of e r t] w
        show ?thesis by (simp add: attempts.simps[of env i tr])
      next
        case False
        with \<open>i < 3\<close> fb Inl "1.prems" w show ?thesis by (auto simp: attempts.simps[of env i tr])
      qed
    qed
  qed
qed


subsection \<open>The outcomes of a run\<close>

lemma todayYmdUTC_nonempty: "todayYmdUTC env \<noteq> []"
  by (simp add: todayYmdUTC_def split: prod.splits)

lemma attempts_step:
  "i < 2 \<Longrightarrow> attempts env i tr =
     (case fetch_both env i tr of
        (Inr p, t) \<Rightarrow> (Inr (Some p), t)
      | (Inl e, t) \<Rightarrow>
          attempts env (Suc i)
            (t @ [ConsoleLog [JStr ''Attempt'', JNum (Num (of_nat (Suc i))), JStr ''failed:'',
                              JStr (message e)], Sleep 1500]))"
  by (subst attempts.simps) (simp split: prod.splits sum.splits)

lemma attempts_last:
  "attempts env (Suc (Suc 0)) tr =
     (case fetch_both env 2 tr of
        (Inr p, t) \<Rightarrow> (Inr (Some p), t)
      | (Inl e, t) \<Rightarrow>
          (Inl e, t @ [ConsoleLog [JStr ''Attempt'', JNum (Num 3), JStr ''failed:'',
                                   JStr (message e)]]))"
  by (subst attempts.simps) (simp add: numeral_2_eq_2 split: prod.splits sum.splits)

lemma attempts_from_0:
  "attempts env 0 tr =
     (case fetch_both env 0 tr of
        (Inr p, t0) \<Rightarrow> (Inr (Some p), t0)
      | (Inl e0, t0) \<Rightarrow>
        (case fetch_both env 1
                (t0 @ [ConsoleLog [JStr ''Attempt'', JNum (Num 1), JStr ''failed:'',
                                   JStr (message e0)], Sleep 1500]) of
           (Inr p, t1) \<Rightarrow> (Inr (Some p), t1)
         | (Inl e1, t1) \<Rightarrow>
           (case fetch_both env 2
                   (t1 @ [ConsoleLog [JStr ''Attempt'', JNum (Num 2), JStr ''failed:'',
                                      JStr (message e1)], Sleep 1500]) of
              (Inr p, t2) \<Rightarrow> (Inr (Some p), t2)
            | (Inl e2, t2) \<Rightarrow>
                (Inl e2, t2 @ [ConsoleLog [JStr ''Attempt'', JNum (Num 3), JStr ''failed:'',
                                           JStr (message e2)]]))))"
  by (simp add: attempts_step[of 0] attempts_step[of "Suc 0"] attempts_last
      split: prod.splits sum.splits)

lemma attempts_never_unassigned: "attempts env 0 tr \<noteq> (Inr None, t)"
  by (simp add: attempts_from_0 split: prod.splits sum.splits)

lemma attempts_success:
  "attempts env 0 tr = (Inr (Some p), t) \<Longrightarrow> \<exists>i t'. i < 3 \<and> fetch_both env i t' = (Inr p, t)"
  by (auto simp: attempts_from_0 split: prod.splits sum.splits)
     (use less_Suc_eq in fastforce)+

lemma fetch_both_success:
  "fetch_both env i t' = (Inr (fng, btc), t) \<longleftrightarrow>
     (\<exists>t1. getFngToday env t' = (Inr fng, t1) \<and> getBtcPrice env t1 = (Inr btc, t))"
  by (auto simp: fetch_both_def split: prod.splits sum.splits)

lemma main_outcomes:
  assumes "main env file tr = (r, file', t)"
  shows "(\<exists>e. r = Inl e \<and> file' = file \<and> writes t = writes tr)
   \<or> (r = Inr () \<and> file' = file \<and>
      t = tr @ [ConsoleLog [JStr ''Already logged for'', JStr (todayYmdUTC env), JStr ''- skip.'']] \<and>
      (\<exists>doc kvs xs. readLog file = Inr doc \<and> init_log (todayYmdUTC env) doc = Inr kvs \<and>
         map_of kvs ''entries'' = Some (JArr xs) \<and> some_date (todayYmdUTC env) xs = Inr True))
   \<or> (\<exists>doc kvs xs fng btc t1 ys.
        readLog file = Inr doc \<and> init_log (todayYmdUTC env) doc = Inr kvs \<and>
        map_of kvs ''entries'' = Some (JArr xs) \<and> some_date (todayYmdUTC env) xs = Inr False \<and>
        attempts env 0 tr = (Inr (Some (fng, btc)), t1) \<and>
        push_sort env xs (make_entry env (todayYmdUTC env) fng btc) = Inr ys \<and>
        r = Inr () \<and>
        file' = writeLog (JObj (AList.update ''entries'' (JArr ys) kvs)) \<and>
        t = t1 @ [WriteFile (JObj (AList.update ''entries'' (JArr ys) kvs)),
                  ConsoleLog [JStr ''Wrote entry:'', make_entry env (todayYmdUTC env) fng btc]])"
  using assms
  by (auto simp: main_def Let_def entries_some_def
      split: sum.splits option.splits bool.splits prod.splits json.splits
      dest: attempts_writes)


lemma init_log_object: "init_log ymd doc = Inr kvs' \<Longrightarrow> \<exists>kvs. doc = JObj kvs"
  by (cases doc) (simp_all add: init_log_def)

lemma init_log_entries:
  "init_log ymd (JObj kvs) = Inr kvs' \<Longrightarrow>
     map_of kvs' ''entries'' =
       Some (case map_of kvs ''entries'' of
               None \<Rightarrow> JArr []
             | Some v \<Rightarrow> if truthy (Some v) then v else JArr [])"
  by (auto simp: init_log_def Let_def update_conv')

lemma init_log_site_start:
  "init_log ymd (JObj kvs) = Inr kvs' \<Longrightarrow>
     map_of kvs' ''site_start'' =
       (if truthy (map_of kvs ''site_start'') then map_of kvs ''site_start''
        else Some (JStr ymd))"
  by (auto simp: init_log_def Let_def update_conv')

lemma init_log_other:
  "init_log ymd (JObj kvs) = Inr kvs' \<Longrightarrow> k \<noteq> ''site_start'' \<Longrightarrow> k \<noteq> ''entries'' \<Longrightarrow>
     map_of kvs' k = map_of kvs k"
  by (auto simp: init_log_def Let_def update_conv')

lemma init_log_total: "\<exists>kvs'. init_log ymd (JObj kvs) = Inr kvs'"
  by (simp add: init_log_def Let_def)

lemma map_of_reparse:
  "map_of (map (\<lambda>(k, v). (k, reparse v)) kvs) k = map_option reparse (map_of kvs k)"
  by (induction kvs) auto

lemma reparse_finite:
  "finite_json v \<Longrightarrow> reparse v = v"
proof (induction v rule: reparse.induct)
  case (1 n)
  then show ?case by (cases n) simp_all
next
  case (2 xs)
  then show ?case by (simp add: list_all_iff map_idI)
next
  case (3 kvs)
  have "map (\<lambda>(k, v). (k, reparse v)) kvs = kvs"
  proof (rule map_idI)
    fix kv assume kv: "kv \<in> set kvs"
    obtain k v where [simp]: "kv = (k, v)" by (cases kv)
    from 3 kv show "(case kv of (k, v) \<Rightarrow> (k, reparse v)) = kv"
      by (auto simp: list_all_iff)
  qed
  then show ?case by simp
qed simp_all

lemma finite_reparse: "finite_json (reparse v)"
proof (induction v rule: reparse.induct)
  case (1 n)
  then show ?case by (cases n) simp_all
next
  case (2 xs)
  then show ?case by (simp add: list_all_iff)
next
  case (3 kvs)
  then show ?case by (fastforce simp: list_all_iff)
qed simp_all

lemma dated_reparse: "dated ymd (reparse e) = dated ymd e"
proof (cases e)
  case (JObj kvs)
  show ?thesis
  proof (cases "map_of kvs ''date''")
    case None
    with JObj show ?thesis by (simp add: dated_def map_of_reparse)
  next
    case (Some v)
    with JObj show ?thesis
      by (cases v) (auto simp: dated_def map_of_reparse split: jsnum.splits)
  qed
qed (simp_all add: dated_def split: jsnum.splits)

lemma reparse_eq_JNull: "reparse e = JNull \<Longrightarrow> finite_json e \<Longrightarrow> e = JNull"
  by (simp add: reparse_finite)

lemma some_date_False:
  "some_date ymd xs = Inr False \<Longrightarrow> JNull \<notin> set xs \<and> filter (dated ymd) xs = []"
  by (induction xs) (auto simp: date_of_def dated_def split: if_splits)

lemma some_date_True: "some_date ymd xs = Inr True \<Longrightarrow> \<exists>e \<in> set xs. dated ymd e"
  by (induction xs) (auto simp: date_of_def dated_def split: if_splits)

lemma some_date_found:
  "JNull \<notin> set xs \<Longrightarrow> \<exists>e \<in> set xs. dated ymd e \<Longrightarrow> some_date ymd xs = Inr True"
  by (induction xs) (auto simp: date_of_def dated_def)

lemma insert_entry_mset:
  "insert_entry env x ys = Inr zs \<Longrightarrow> mset zs = add_mset x (mset ys)"
  by (induction ys arbitrary: zs) (auto split: sum.splits if_splits)

lemma sort_entries_mset: "sort_entries env xs = Inr ys \<Longrightarrow> mset ys = mset xs"
  by (induction xs arbitrary: ys) (auto split: sum.splits dest: insert_entry_mset)

lemma push_sort_mset: "push_sort env xs e = Inr ys \<Longrightarrow> mset ys = add_mset e (mset xs)"
  by (auto simp: push_sort_def dest: sort_entries_mset)


lemma entries_some_array:
  "entries_some ymd es = Inr b \<Longrightarrow> \<exists>xs. es = JArr xs \<and> some_date ymd xs = Inr b"
  by (cases es) (simp_all add: entries_some_def)

lemma starts_fetching_main:
  assumes "starts_fetching env file"
  shows "\<exists>doc kvs xs. readLog file = Inr doc \<and> init_log (todayYmdUTC env) doc = Inr kvs \<and>
     map_of kvs ''entries'' = Some (JArr xs) \<and> some_date (todayYmdUTC env) xs = Inr False \<and>
     main env file tr =
       (case attempts env 0 tr of
          (Inl e, t1) \<Rightarrow> (Inl e, file, t1)
        | (Inr None, t1) \<Rightarrow> (Inl (TypeError ''Cannot read properties of undefined''), file, t1)
        | (Inr (Some (fng, btc)), t1) \<Rightarrow>
            (case push_sort env xs (make_entry env (todayYmdUTC env) fng btc) of
               Inl e \<Rightarrow> (Inl e, file, t1)
             | Inr ys \<Rightarrow>
                 (Inr (), writeLog (JObj (AList.update ''entries'' (JArr ys) kvs)),
                  t1 @ [WriteFile (JObj (AList.update ''entries'' (JArr ys) kvs)),
                        ConsoleLog [JStr ''Wrote entry:'',
                                    make_entry env (todayYmdUTC env) fng btc]])))"
proof -
  from assms obtain doc kvs es where a: "readLog file = Inr doc"
    "init_log (todayYmdUTC env) doc = Inr kvs" "map_of kvs ''entries'' = Some es"
    "entries_some (todayYmdUTC env) es = Inr False"
    by (auto simp: starts_fetching_def split: sum.splits option.splits)
  from entries_some_array[OF a(4)] obtain xs where xs: "es = JArr xs"
    "some_date (todayYmdUTC env) xs = Inr False" by auto
  show ?thesis
    using a xs by (simp add: main_def Let_def split: prod.splits sum.splits option.splits)
qed

lemma run_outcomes:
  assumes "run env file = (c, file', t)"
  shows "(c = 1 \<and> file' = file \<and> writes t = [])
   \<or> (c = 0 \<and> file' = file \<and>
      t = [ConsoleLog [JStr ''Already logged for'', JStr (todayYmdUTC env), JStr ''- skip.'']] \<and>
      (\<exists>doc kvs xs. readLog file = Inr doc \<and> init_log (todayYmdUTC env) doc = Inr kvs \<and>
         map_of kvs ''entries'' = Some (JArr xs) \<and> some_date (todayYmdUTC env) xs = Inr True))
   \<or> (\<exists>doc kvs xs fng btc t1 ys.
        readLog file = Inr doc \<and> init_log (todayYmdUTC env) doc = Inr kvs \<and>
        map_of kvs ''entries'' = Some (JArr xs) \<and> some_date (todayYmdUTC env) xs = Inr False \<and>
        attempts env 0 [] = (Inr (Some (fng, btc)), t1) \<and>
        push_sort env xs (make_entry env (todayYmdUTC env) fng btc) = Inr ys \<and>
        c = 0 \<and>
        file' = writeLog (JObj (AList.update ''entries'' (JArr ys) kvs)) \<and>
        t = t1 @ [WriteFile (JObj (AList.update ''entries'' (JArr ys) kvs)),
                  ConsoleLog [JStr ''Wrote entry:'', make_entry env (todayYmdUTC env) fng btc]] \<and>
        writes t = [JObj (AList.update ''entries'' (JArr ys) kvs)])"
proof -
  obtain r f tm where m: "main env file [] = (r, f, tm)" by (cases "main env file []") auto
  from main_outcomes[OF m] show ?thesis
  proof (elim disjE exE conjE)
    fix e assume "r = Inl e" "f = file" "writes tm = writes []"
    with m assms show ?thesis by (auto simp: run_def)
  next
    assume "r = Inr ()" "f = file"
      "tm = [] @ [ConsoleLog [JStr ''Already logged for'', JStr (todayYmdUTC env), JStr ''- skip.'']]"
    moreover fix doc kvs xs
    assume "readLog file = Inr doc" "init_log (todayYmdUTC env) doc = Inr kvs"
      "map_of kvs ''entries'' = Some (JArr xs)" "some_date (todayYmdUTC env) xs = Inr True"
    ultimately show ?thesis using m assms by (auto simp: run_def)
  next
    fix doc kvs xs fng btc t1 ys
    assume a: "readLog file = Inr doc" "init_log (todayYmdUTC env) doc = Inr kvs"
      "map_of kvs ''entries'' = Some (JArr xs)" "some_date (todayYmdUTC env) xs = Inr False"
      "attempts env 0 [] = (Inr (Some (fng, btc)), t1)"
      "push_sort env xs (make_entry env (todayYmdUTC env) fng btc) = Inr ys"
      "r = Inr ()" "f = writeLog (JObj (AList.update ''entries'' (JArr ys) kvs))"
      "tm = t1 @ [WriteFile (JObj (AList.update ''entries'' (JArr ys) kvs)),
                  ConsoleLog [JStr ''Wrote entry:'', make_entry env (todayYmdUTC env) fng btc]]"
    from attempts_writes[OF a(5)] have "writes t1 = []" by simp
    with a m assms show ?thesis by (auto simp: run_def)
  qed
qed

subsection \<open>The first end-to-end example\<close>

lemma today_example: "todayYmdUTC (example_env R) = ''2024-01-05''"
  by (simp add: todayYmdUTC_def example_env_def decimal_int_def decimal.simps digit_def
      padStart2_def)

lemma iso_now_example: "iso_now (example_env R) = ''2024-01-05T00:10:00.000Z''"
  by (simp add: example_env_def)

lemma getBtcPrice_first: "btc1 env tr = (Inr q, t) \<Longrightarrow> getBtcPrice env tr = (Inr q, t)"
  by (simp add: getBtcPrice_def try3_def)

lemma attempts_first: "fetch_both env 0 tr = (Inr p, t) \<Longrightarrow> attempts env 0 tr = (Inr (Some p), t)"
  by (simp add: attempts_from_0)

lemma push_sort_single: "push_sort env [] e = Inr [e]"
  by (simp add: push_sort_def)

lemma run_absent_appends:
  assumes "attempts env 0 [] = (Inr (Some (fng, btc)), t1)"
  shows "run env Absent =
     (0,
      Holds (JObj [(''site_start'', JStr (todayYmdUTC env)),
                   (''entries'', JArr [reparse (make_entry env (todayYmdUTC env) fng btc)])]),
      t1 @ [WriteFile (JObj [(''site_start'', JStr (todayYmdUTC env)),
                             (''entries'', JArr [make_entry env (todayYmdUTC env) fng btc])]),
            ConsoleLog [JStr ''Wrote entry:'', make_entry env (todayYmdUTC env) fng btc]])"
  using assms
  by (simp add: run_def main_def readLog_def init_log_def Let_def entries_some_def
      push_sort_single writeLog_def todayYmdUTC_nonempty)

lemma btc1_coingecko:
  "R BTC1_URL (count_list tr (Request BTC1_URL)) = ok coingecko_quote \<Longrightarrow>
   btc1 (example_env R) tr =
     (Inr \<lparr>usd = Num 60000, idr = Num 960000000, sourceNote = ''BTC: CoinGecko (USD+IDR)''\<rparr>,
      tr @ [Request BTC1_URL])"
  by (simp add: btc1_def fetchJson_example ok_def coingecko_quote_def Number_example)

lemma fng_primary:
  "getFngToday (example_env replies_primary) tr =
     (Inr \<lparr>fng_value = Num 55, fng_label = ''Greed'', fng_timestamp = Num 1700000000\<rparr>,
      tr @ [Request FNG_URL])"
  by (simp add: getFngToday_def fetchJson_example replies_primary_def ok_def fng_greed_def
      Number_example String_def)

lemma attempts_primary:
  "attempts (example_env replies_primary) 0 tr =
     (Inr (Some (\<lparr>fng_value = Num 55, fng_label = ''Greed'', fng_timestamp = Num 1700000000\<rparr>,
                 \<lparr>usd = Num 60000, idr = Num 960000000,
                  sourceNote = ''BTC: CoinGecko (USD+IDR)''\<rparr>)),
      tr @ [Request FNG_URL, Request BTC1_URL])"
proof -
  have "getBtcPrice (example_env replies_primary) (tr @ [Request FNG_URL]) =
     (Inr \<lparr>usd = Num 60000, idr = Num 960000000, sourceNote = ''BTC: CoinGecko (USD+IDR)''\<rparr>,
      (tr @ [Request FNG_URL]) @ [Request BTC1_URL])"
    by (rule getBtcPrice_first, rule btc1_coingecko) (simp add: replies_primary_def url_defs)
  then show ?thesis
    by (intro attempts_first) (simp add: fetch_both_def fng_primary)
qed

lemma make_entry_primary:
  "make_entry (example_env R) ''2024-01-05''
     \<lparr>fng_value = Num 55, fng_label = ''Greed'', fng_timestamp = Num 1700000000\<rparr>
     \<lparr>usd = Num 60000, idr = Num 960000000, sourceNote = ''BTC: CoinGecko (USD+IDR)''\<rparr>
   = entry_primary"
  by (simp add: make_entry_def entry_primary_def iso_now_example)

lemma reparse_entry_primary: "reparse entry_primary = entry_primary"
  by (simp add: entry_primary_def)

lemma run_primary:
  "run (example_env replies_primary) Absent =
     (0, Holds doc_primary,
      [Request FNG_URL, Request BTC1_URL, WriteFile doc_primary,
       ConsoleLog [JStr ''Wrote entry:'', entry_primary]])"
  using run_absent_appends[OF attempts_primary[of "[]"]]
  by (simp add: today_example make_entry_primary reparse_entry_primary doc_primary_def)

lemma run_primary_again:
  "run (example_env R) (Holds doc_primary) =
     (0, Holds doc_primary,
      [ConsoleLog [JStr ''Already logged for'', JStr ''2024-01-05'', JStr ''- skip.'']])"
  by (simp add: run_def main_def readLog_def init_log_def Let_def entries_some_def
      today_example doc_primary_def entry_primary_def date_of_def update_conv')

subsection \<open>The sentiment provider\<close>

lemma getFngToday_after_fetch:
  assumes "fetchJson env FNG_URL ''FNG'' tr = (Inr j, tr1)"
    and "d = opt_index (opt_prop (Some j) ''data'') 0"
  shows "getFngToday env tr =
     (if \<not> truthy d then (Inl (Error ''FNG no data''), tr1)
      else case Number env (opt_prop d ''value'') of
             Inl e \<Rightarrow> (Inl e, tr1)
           | Inr v \<Rightarrow>
             (case String env (opt_prop d ''value_classification'') of
                Inl e \<Rightarrow> (Inl e, tr1)
              | Inr l \<Rightarrow>
                (case Number env (opt_prop d ''timestamp'') of
                   Inl e \<Rightarrow> (Inl e, tr1)
                 | Inr t \<Rightarrow> (Inr \<lparr>fng_value = v, fng_label = l, fng_timestamp = t\<rparr>, tr1))))"
  using assms(1) unfolding assms(2) by (simp add: getFngToday_def Let_def)

lemma getFngToday_fails_iff:
  assumes "fetchJson env FNG_URL ''FNG'' tr = (Inr j, tr1)"
    and "d = opt_index (opt_prop (Some j) ''data'') 0"
  shows "(\<exists>e. getFngToday env tr = (Inl e, tr1)) \<longleftrightarrow>
         (\<not> truthy d \<or> \<not> converts env (opt_prop d ''value'')
          \<or> \<not> converts env (opt_prop d ''value_classification'')
          \<or> \<not> converts env (opt_prop d ''timestamp''))"
  using Number_error_iff[of env "opt_prop d ''value''"]
    String_error_iff[of env "opt_prop d ''value_classification''"]
    Number_error_iff[of env "opt_prop d ''timestamp''"]
  unfolding getFngToday_after_fetch[OF assms]
  by (auto split: sum.splits)

lemma getFngToday_scalars:
  assumes "fetchJson env FNG_URL ''FNG'' tr = (Inr j, tr1)"
    and "d = opt_index (opt_prop (Some j) ''data'') 0"
    and "truthy d" and "scalar (opt_prop d ''value'')"
    and "scalar (opt_prop d ''value_classification'')" and "scalar (opt_prop d ''timestamp'')"
  shows "\<exists>q. getFngToday env tr = (Inr q, tr1)
     \<and> (opt_prop d ''value'' = None \<longrightarrow> fng_value q = NaN)
     \<and> (\<forall>s. opt_prop d ''value'' = Some (JStr s) \<longrightarrow> fng_value q = StringToNumber env s)
     \<and> (\<forall>n. opt_prop d ''value'' = Some (JNum n) \<longrightarrow> fng_value q = n)
     \<and> (opt_prop d ''timestamp'' = None \<longrightarrow> fng_timestamp q = NaN)
     \<and> (\<forall>s. opt_prop d ''timestamp'' = Some (JStr s) \<longrightarrow>
           fng_timestamp q = StringToNumber env s)"
proof -
  from assms(4) obtain v where v: "Number env (opt_prop d ''value'') = Inr v"
    using scalar_converts[of "opt_prop d ''value''" env]
      Number_error_iff[of env "opt_prop d ''value''"]
    by (cases "Number env (opt_prop d ''value'')") auto
  from assms(5) obtain l where l: "String env (opt_prop d ''value_classification'') = Inr l"
    using scalar_converts[of "opt_prop d ''value_classification''" env]
      String_error_iff[of env "opt_prop d ''value_classification''"]
    by (cases "String env (opt_prop d ''value_classification'')") auto
  from assms(6) obtain t where t: "Number env (opt_prop d ''timestamp'') = Inr t"
    using scalar_converts[of "opt_prop d ''timestamp''" env]
      Number_error_iff[of env "opt_prop d ''timestamp''"]
    by (cases "Number env (opt_prop d ''timestamp'')") auto
  have "getFngToday env tr = (Inr \<lparr>fng_value = v, fng_label = l, fng_timestamp = t\<rparr>, tr1)"
    using assms(3) v l t by (simp add: getFngToday_after_fetch[OF assms(1,2)])
  moreover have "opt_prop d ''value'' = None \<longrightarrow> v = NaN"
    using v by (auto simp: Number_def)
  moreover have "\<forall>s. opt_prop d ''value'' = Some (JStr s) \<longrightarrow> v = StringToNumber env s"
    using v by (auto simp: Number_def)
  moreover have "\<forall>n. opt_prop d ''value'' = Some (JNum n) \<longrightarrow> v = n"
    using v by (auto simp: Number_def)
  moreover have "opt_prop d ''timestamp'' = None \<longrightarrow> t = NaN"
    using t by (auto simp: Number_def)
  moreover have "\<forall>s. opt_prop d ''timestamp'' = Some (JStr s) \<longrightarrow> t = StringToNumber env s"
    using t by (auto simp: Number_def)
  ultimately show ?thesis by simp
qed

text \<open>
  Claim C8, as the code has it. Let the request of \<^verbatim>\<open>getFngToday\<close> return a body and let \<open>d\<close>
  be its \<^verbatim>\<open>data[0]\<close>. The provider fails exactly when \<open>d\<close> is absent or falsy, or one of the
  fields \<^verbatim>\<open>value\<close>, \<^verbatim>\<open>value_classification\<close>, \<^verbatim>\<open>timestamp\<close> of \<open>d\<close> cannot be converted to
  a primitive. When \<open>d\<close> is truthy and the three fields are absent or scalars it succeeds,
  whatever they are: a missing value or timestamp becomes \<^verbatim>\<open>NaN\<close>, a string becomes whatever
  Number it reads as, a number (zero included) is kept.
\<close>

theorem sentiment_provider_checks_presence_only:
  "fetchJson env FNG_URL ''FNG'' tr = (Inr j, tr1) \<and> d = opt_index (opt_prop (Some j) ''data'') 0
   \<longrightarrow>
     ((\<exists>e. getFngToday env tr = (Inl e, tr1)) \<longleftrightarrow>
        (\<not> truthy d \<or> \<not> converts env (opt_prop d ''value'')
         \<or> \<not> converts env (opt_prop d ''value_classification'')
         \<or> \<not> converts env (opt_prop d ''timestamp'')))
   \<and> (\<not> truthy d \<longrightarrow> getFngToday env tr = (Inl (Error ''FNG no data''), tr1))
   \<and> (truthy d \<and> scalar (opt_prop d ''value'') \<and> scalar (opt_prop d ''value_classification'')
      \<and> scalar (opt_prop d ''timestamp'')
      \<longrightarrow> (\<exists>q. getFngToday env tr = (Inr q, tr1)
            \<and> (opt_prop d ''value'' = None \<longrightarrow> fng_value q = NaN)
            \<and> (\<forall>s. opt_prop d ''value'' = Some (JStr s) \<longrightarrow> fng_value q = StringToNumber env s)
            \<and> (\<forall>n. opt_prop d ''value'' = Some (JNum n) \<longrightarrow> fng_value q = n)
            \<and> (opt_prop d ''timestamp'' = None \<longrightarrow> fng_timestamp q = NaN)
            \<and> (\<forall>s. opt_prop d ''timestamp'' = Some (JStr s) \<longrightarrow>
                  fng_timestamp q = StringToNumber env s)))"
proof (intro impI conjI)
  assume a: "fetchJson env FNG_URL ''FNG'' tr = (Inr j, tr1) \<and>
             d = opt_index (opt_prop (Some j) ''data'') 0"
  then have f: "fetchJson env FNG_URL ''FNG'' tr = (Inr j, tr1)"
    and d: "d = opt_index (opt_prop (Some j) ''data'') 0" by simp_all
  show "(\<exists>e. getFngToday env tr = (Inl e, tr1)) \<longleftrightarrow>
        (\<not> truthy d \<or> \<not> converts env (opt_prop d ''value'')
         \<or> \<not> converts env (opt_prop d ''value_classification'')
         \<or> \<not> converts env (opt_prop d ''timestamp''))"
    by (rule getFngToday_fails_iff[OF f d])
  show "getFngToday env tr = (Inl (Error ''FNG no data''), tr1)" if "\<not> truthy d"
    using that by (simp add: getFngToday_after_fetch[OF f d])
  show "\<exists>q. getFngToday env tr = (Inr q, tr1)
            \<and> (opt_prop d ''value'' = None \<longrightarrow> fng_value q = NaN)
            \<and> (\<forall>s. opt_prop d ''value'' = Some (JStr s) \<longrightarrow> fng_value q = StringToNumber env s)
            \<and> (\<forall>n. opt_prop d ''value'' = Some (JNum n) \<longrightarrow> fng_value q = n)
            \<and> (opt_prop d ''timestamp'' = None \<longrightarrow> fng_timestamp q = NaN)
            \<and> (\<forall>s. opt_prop d ''timestamp'' = Some (JStr s) \<longrightarrow>
                  fng_timestamp q = StringToNumber env s)"
    if "truthy d \<and> scalar (opt_prop d ''value'') \<and> scalar (opt_prop d ''value_classification'')
      \<and> scalar (opt_prop d ''timestamp'')"
    using that getFngToday_scalars[OF f d] by blast
qed

text \<open>
  A data point without any field is accepted, and the \<^verbatim>\<open>NaN\<close> of its value and timestamp
  goes into the entry that the run appends; the file then holds \<^verbatim>\<open>null\<close> in their place. A
  reply without a data point is refused.
\<close>

lemma fng_bare:
  "getFngToday (example_env replies_bare) [] =
     (Inr \<lparr>fng_value = NaN, fng_label = ''undefined'', fng_timestamp = NaN\<rparr>, [Request FNG_URL])"
  "getFngToday (example_env replies_bare) [Request FNG_URL] =
     (Inl (Error ''FNG no data''), [Request FNG_URL, Request FNG_URL])"
  by (simp_all add: getFngToday_def fetchJson_example replies_bare_def ok_def Number_example
      String_def)

lemma run_bare:
  "run (example_env replies_bare) Absent =
     (0,
      Holds (JObj [(''site_start'', JStr ''2024-01-05''),
                   (''entries'', JArr [reparse entry_bare])]),
      [Request FNG_URL, Request BTC1_URL,
       WriteFile (JObj [(''site_start'', JStr ''2024-01-05''), (''entries'', JArr [entry_bare])]),
       ConsoleLog [JStr ''Wrote entry:'', entry_bare]])"
proof -
  have "getBtcPrice (example_env replies_bare) [Request FNG_URL] =
     (Inr \<lparr>usd = Num 60000, idr = Num 960000000, sourceNote = ''BTC: CoinGecko (USD+IDR)''\<rparr>,
      [Request FNG_URL] @ [Request BTC1_URL])"
    by (rule getBtcPrice_first, rule btc1_coingecko) (simp add: replies_bare_def url_defs)
  then have "attempts (example_env replies_bare) 0 [] =
     (Inr (Some (\<lparr>fng_value = NaN, fng_label = ''undefined'', fng_timestamp = NaN\<rparr>,
                 \<lparr>usd = Num 60000, idr = Num 960000000,
                  sourceNote = ''BTC: CoinGecko (USD+IDR)''\<rparr>)),
      [Request FNG_URL, Request BTC1_URL])"
    by (intro attempts_first) (simp add: fetch_both_def fng_bare)
  from run_absent_appends[OF this] show ?thesis
    by (simp add: today_example make_entry_def entry_bare_def iso_now_example)
qed

theorem sentiment_provider_checks_presence_only_witness:
  "getFngToday (example_env replies_bare) [] =
     (Inr \<lparr>fng_value = NaN, fng_label = ''undefined'', fng_timestamp = NaN\<rparr>, [Request FNG_URL])
 \<and> getFngToday (example_env replies_bare) [Request FNG_URL] =
     (Inl (Error ''FNG no data''), [Request FNG_URL, Request FNG_URL])
 \<and> writes (snd (snd (run (example_env replies_bare) Absent))) =
     [JObj [(''site_start'', JStr ''2024-01-05''), (''entries'', JArr [entry_bare])]]
 \<and> get_prop entry_bare ''fng_value'' = Some (JNum NaN)
 \<and> get_prop (reparse entry_bare) ''fng_value'' = Some JNull"
  using
    sentiment_provider_checks_presence_only
      [where env = "example_env replies_bare" and tr = "[]"
         and j = "JObj [(''data'', JArr [JObj []])]" and ?tr1.0 = "[Request FNG_URL]"
         and d = "Some (JObj [])"]
    sentiment_provider_checks_presence_only
      [where env = "example_env replies_bare" and tr = "[Request FNG_URL]"
         and j = "JObj [(''data'', JArr [])]" and ?tr1.0 = "[Request FNG_URL, Request FNG_URL]"
         and d = "None"]
  by (simp add: fng_bare run_bare entry_bare_def)

text \<open>
  Claim C8 as stated lets the provider succeed whenever a first data point exists. A data
  point whose value is an object with a member \<^verbatim>\<open>toString\<close> exists and is truthy, but
  \<^verbatim>\<open>Number\<close> throws on that value and the provider fails.
\<close>

theorem sentiment_unconvertible_value_counterexample:
  "fetchJson (example_env replies_unconvertible) FNG_URL ''FNG'' [] =
     (Inr fng_unconvertible, [Request FNG_URL])
 \<and> truthy (opt_index (opt_prop (Some fng_unconvertible) ''data'') 0)
 \<and> getFngToday (example_env replies_unconvertible) [] =
     (Inl (TypeError ''Cannot convert object to primitive value''), [Request FNG_URL])"
  by (simp add: getFngToday_def fetchJson_example replies_unconvertible_def ok_def
      fng_unconvertible_def Number_def)

subsection \<open>Appending keeps the entries sorted\<close>

lemma compare_dates_strings:
  assumes "date_string a = Some s" and "date_string b = Some t"
  shows "compare_dates env a b = Inr (if s < t then - 1 else if t < s then 1 else 0)"
proof -
  from assms have "get_prop a ''date'' = Some (JStr s)" "get_prop b ''date'' = Some (JStr t)"
    by (auto split: option.splits json.splits)
  moreover from this have "a \<noteq> JNull" "b \<noteq> JNull" by auto
  ultimately show ?thesis
    by (simp add: compare_dates_def date_of_def less_than_def)
qed

lemma date_key_string: "date_string e = Some s \<Longrightarrow> date_key e = s"
  by (simp add: date_key_def)

lemma insert_entry_sorted:
  assumes "date_string x = Some s" and "\<forall>y \<in> set ys. date_string y \<noteq> None"
    and "sorted (map date_key ys)"
  shows "\<exists>zs. insert_entry env x ys = Inr zs \<and> sorted (map date_key zs)
           \<and> mset zs = add_mset x (mset ys)"
  using assms(2,3)
proof (induction ys)
  case Nil
  then show ?case by simp
next
  case (Cons y ys)
  then obtain t where t: "date_string y = Some t" by auto
  note c = compare_dates_strings[OF assms(1) t, of env]
  note kx = date_key_string[OF assms(1)] and ky = date_key_string[OF t]
  show ?case
  proof (cases "s \<le> t")
    case True
    then have "insert_entry env x (y # ys) = Inr (x # y # ys)"
      using c by auto
    moreover have "sorted (map date_key (x # y # ys))"
      using Cons.prems(2) True kx ky by auto
    ultimately show ?thesis by simp
  next
    case False
    from Cons obtain zs where zs: "insert_entry env x ys = Inr zs"
      "sorted (map date_key zs)" "mset zs = add_mset x (mset ys)"
      by auto
    from False have "insert_entry env x (y # ys) = Inr (y # zs)"
      using c zs(1) by auto
    moreover have "set zs = insert x (set ys)"
      using zs(3) by (metis set_mset_add_mset_insert set_mset_mset)
    then have "sorted (map date_key (y # zs))"
      using Cons.prems(2) zs(2) False kx ky by auto
    ultimately show ?thesis using zs(3) by simp
  qed
qed

lemma sort_entries_sorted:
  assumes "\<forall>x \<in> set xs. date_string x \<noteq> None"
  shows "\<exists>ys. sort_entries env xs = Inr ys \<and> sorted (map date_key ys) \<and> mset ys = mset xs"
  using assms
proof (induction xs)
  case Nil
  then show ?case by simp
next
  case (Cons x xs)
  then obtain ys where ys: "sort_entries env xs = Inr ys" "sorted (map date_key ys)"
    "mset ys = mset xs" by auto
  from Cons.prems obtain s where s: "date_string x = Some s" by auto
  have "\<forall>y \<in> set ys. date_string y \<noteq> None"
    using Cons.prems ys(3) by (metis list.set_intros(2) set_mset_mset)
  from insert_entry_sorted[OF s this ys(2), of env] ys(1,3) show ?case by auto
qed

text \<open>
  Claim C4. Let the entries all have a string as date and be strictly ascending by it (sorted,
  with no date twice), and let the new entry have a date string that none of them has. Then
  \<^verbatim>\<open>push\<close> followed by \<^verbatim>\<open>sort\<close> does not throw and yields the old entries and the new one,
  one more in number, again strictly ascending by date.
\<close>

theorem push_sort_keeps_order:
  "(\<forall>e \<in> set xs. date_string e \<noteq> None) \<and> sorted_wrt (<) (map date_key xs) \<and>
   date_string entry = Some d \<and> d \<notin> date_key ` set xs
   \<longrightarrow> (\<exists>ys. push_sort env xs entry = Inr ys \<and> length ys = length xs + 1 \<and>
             sorted_wrt (<) (map date_key ys) \<and> mset ys = add_mset entry (mset xs))"
proof
  assume a: "(\<forall>e \<in> set xs. date_string e \<noteq> None) \<and> sorted_wrt (<) (map date_key xs) \<and>
   date_string entry = Some d \<and> d \<notin> date_key ` set xs"
  then have "\<forall>x \<in> set (xs @ [entry]). date_string x \<noteq> None" by auto
  from sort_entries_sorted[OF this, of env]
  obtain ys where ys: "push_sort env xs entry = Inr ys" "sorted (map date_key ys)"
    "mset ys = add_mset entry (mset xs)"
    by (auto simp: push_sort_def)
  have "distinct (map date_key (xs @ [entry]))"
    using a by (auto simp: strict_sorted_iff date_key_def)
  moreover have "mset (map date_key ys) = mset (map date_key (xs @ [entry]))"
    using ys(3) by simp
  ultimately have "distinct (map date_key ys)"
    by (metis mset_eq_imp_distinct_iff)
  with ys(2) have "sorted_wrt (<) (map date_key ys)"
    by (simp add: strict_sorted_iff)
  moreover have "length ys = length xs + 1"
    using ys(3) by (metis Suc_eq_plus1 size_add_mset size_mset)
  ultimately show "\<exists>ys. push_sort env xs entry = Inr ys \<and> length ys = length xs + 1 \<and>
             sorted_wrt (<) (map date_key ys) \<and> mset ys = add_mset entry (mset xs)"
    using ys(1,3) by auto
qed

text \<open>An entry for 5 January goes between those for 3 and 6 January.\<close>

theorem push_sort_keeps_order_witness:
  "sorted_wrt (<) (map date_key [JObj [(''date'', JStr ''2024-01-03'')],
                                 JObj [(''date'', JStr ''2024-01-06'')]])
 \<and> date_string entry_primary = Some ''2024-01-05''
 \<and> push_sort (example_env replies_down)
       [JObj [(''date'', JStr ''2024-01-03'')], JObj [(''date'', JStr ''2024-01-06'')]]
       entry_primary =
     Inr [JObj [(''date'', JStr ''2024-01-03'')], entry_primary,
          JObj [(''date'', JStr ''2024-01-06'')]]
 \<and> sorted_wrt (<) (map date_key [JObj [(''date'', JStr ''2024-01-03'')], entry_primary,
                                 JObj [(''date'', JStr ''2024-01-06'')]])"
  using push_sort_keeps_order
    [where xs = "[JObj [(''date'', JStr ''2024-01-03'')], JObj [(''date'', JStr ''2024-01-06'')]]"
       and entry = entry_primary and d = "''2024-01-05''" and env = "example_env replies_down"]
  by (simp add: push_sort_def compare_dates_def date_of_def less_than_def entry_primary_def
      date_key_def)

subsection \<open>Failure of the combined fetch\<close>

lemma entries_of_writeLog:
  "map_of kvs ''entries'' = Some es \<Longrightarrow>
   entries_of (writeLog (JObj (AList.update ''entries'' (JArr ys) kvs))) = map reparse ys"
  by (simp add: writeLog_def map_of_reparse update_conv')

lemma field_of_writeLog:
  "field_of (writeLog (JObj (AList.update ''entries'' (JArr ys) kvs))) k =
     (if k = ''entries'' then Some (JArr (map reparse ys)) else map_option reparse (map_of kvs k))"
  by (simp add: writeLog_def map_of_reparse update_conv')

text \<open>
  Claim C3. A run that ends with a non-zero code leaves the file as it was and writes
  nothing. When the document loads without an entry for today and the pair of fetches fails
  in each of the three attempts, the run ends with code 1 right after the third failure, the
  file untouched. And a run changes the file only by its one write, which happens only after
  the sentiment fetch and the price fetch have both succeeded in one and the same attempt,
  the last thing the run did before the write; the document written then contains the
  complete entry built from the two quotes.
\<close>

theorem failed_fetch_leaves_log_untouched:
  "run env file = (c, file', t) \<longrightarrow>
     (c \<noteq> 0 \<longrightarrow> file' = file \<and> writes t = [])
   \<and> (starts_fetching env file \<and>
      fetch_both env 0 [] = (Inl e0, t0) \<and>
      fetch_both env 1
        (t0 @ [ConsoleLog [JStr ''Attempt'', JNum (Num 1), JStr ''failed:'', JStr (message e0)],
               Sleep 1500]) = (Inl e1, t1) \<and>
      fetch_both env 2
        (t1 @ [ConsoleLog [JStr ''Attempt'', JNum (Num 2), JStr ''failed:'', JStr (message e1)],
               Sleep 1500]) = (Inl e2, t2)
      \<longrightarrow> c = 1 \<and> file' = file \<and> writes t = [] \<and>
          t = t2 @ [ConsoleLog [JStr ''Attempt'', JNum (Num 3), JStr ''failed:'',
                                JStr (message e2)],
                    ConsoleError ''daily.js failed:'' e2])
   \<and> (file' \<noteq> file \<or> writes t \<noteq> [] \<longrightarrow>
        c = 0 \<and>
        (\<exists>i ta tb tc fng btc.
           i < 3 \<and> getFngToday env ta = (Inr fng, tb) \<and> getBtcPrice env tb = (Inr btc, tc) \<and>
           fetch_both env i ta = (Inr (fng, btc), tc) \<and>
           reparse (make_entry env (todayYmdUTC env) fng btc) \<in> set (entries_of file') \<and>
           (\<exists>doc. t = tc @ [WriteFile doc,
                              ConsoleLog [JStr ''Wrote entry:'',
                                          make_entry env (todayYmdUTC env) fng btc]] \<and>
                  writes t = [doc] \<and> file' = writeLog doc)))"
proof (intro impI conjI)
  assume r: "run env file = (c, file', t)"
  assume "c \<noteq> 0"
  with run_outcomes[OF r] show "file' = file" "writes t = []" by auto
next
  assume r: "run env file = (c, file', t)"
  assume a: "starts_fetching env file \<and>
      fetch_both env 0 [] = (Inl e0, t0) \<and>
      fetch_both env 1
        (t0 @ [ConsoleLog [JStr ''Attempt'', JNum (Num 1), JStr ''failed:'', JStr (message e0)],
               Sleep 1500]) = (Inl e1, t1) \<and>
      fetch_both env 2
        (t1 @ [ConsoleLog [JStr ''Attempt'', JNum (Num 2), JStr ''failed:'', JStr (message e1)],
               Sleep 1500]) = (Inl e2, t2)"
  then have att: "attempts env 0 [] =
      (Inl e2, t2 @ [ConsoleLog [JStr ''Attempt'', JNum (Num 3), JStr ''failed:'',
                                 JStr (message e2)]])"
    by (simp add: attempts_from_0)
  from a starts_fetching_main[of env "file" "[]"] att
  have "main env file [] =
      (Inl e2, file, t2 @ [ConsoleLog [JStr ''Attempt'', JNum (Num 3), JStr ''failed:'',
                                 JStr (message e2)]])"
    by auto
  with r have eq: "c = 1" "file' = file"
    "t = t2 @ [ConsoleLog [JStr ''Attempt'', JNum (Num 3), JStr ''failed:'', JStr (message e2)],
               ConsoleError ''daily.js failed:'' e2]"
    by (auto simp: run_def)
  from eq(1) run_outcomes[OF r] have "writes t = []" by auto
  with eq show "c = 1" "file' = file" "writes t = []"
    "t = t2 @ [ConsoleLog [JStr ''Attempt'', JNum (Num 3), JStr ''failed:'', JStr (message e2)],
               ConsoleError ''daily.js failed:'' e2]"
    by auto
next
  assume r: "run env file = (c, file', t)"
  assume w: "file' \<noteq> file \<or> writes t \<noteq> []"
  from run_outcomes[OF r] w obtain kvs xs fng btc t1 ys where
    a: "map_of kvs ''entries'' = Some (JArr xs)"
      "attempts env 0 [] = (Inr (Some (fng, btc)), t1)"
      "push_sort env xs (make_entry env (todayYmdUTC env) fng btc) = Inr ys"
      "c = 0" "file' = writeLog (JObj (AList.update ''entries'' (JArr ys) kvs))"
      "writes t = [JObj (AList.update ''entries'' (JArr ys) kvs)]"
      "t = t1 @ [WriteFile (JObj (AList.update ''entries'' (JArr ys) kvs)),
                 ConsoleLog [JStr ''Wrote entry:'', make_entry env (todayYmdUTC env) fng btc]]"
    by auto
  show "c = 0" by (rule a(4))
  from attempts_success[OF a(2)] obtain i ta where i: "i < 3"
    "fetch_both env i ta = (Inr (fng, btc), t1)" by auto
  then obtain tb where tb: "getFngToday env ta = (Inr fng, tb)" "getBtcPrice env tb = (Inr btc, t1)"
    by (auto simp: fetch_both_success)
  have "make_entry env (todayYmdUTC env) fng btc \<in> set ys"
    using push_sort_mset[OF a(3)] by (metis set_mset_mset union_single_eq_member)
  then have "reparse (make_entry env (todayYmdUTC env) fng btc) \<in> set (entries_of file')"
    using a(1,5) by (simp add: entries_of_writeLog)
  with i tb a(5,6,7) show "\<exists>i ta tb tc fng btc.
           i < 3 \<and> getFngToday env ta = (Inr fng, tb) \<and> getBtcPrice env tb = (Inr btc, tc) \<and>
           fetch_both env i ta = (Inr (fng, btc), tc) \<and>
           reparse (make_entry env (todayYmdUTC env) fng btc) \<in> set (entries_of file') \<and>
           (\<exists>doc. t = tc @ [WriteFile doc,
                              ConsoleLog [JStr ''Wrote entry:'',
                                          make_entry env (todayYmdUTC env) fng btc]] \<and>
                  writes t = [doc] \<and> file' = writeLog doc)"
    by blast
qed

text \<open>No service answers: three attempts, exit code 1, no file. All answer: one write.\<close>

lemma fetch_both_down:
  "fetch_both (example_env replies_down) i tr =
     (Inl (TypeError ''fetch failed''), tr @ down_events)"
  by (simp add: fetch_both_def getFngToday_def getBtcPrice_def try3_def btc1_def btc2_def
      btc3_def fetchJson_example replies_down_def down_def down_events_def)

lemma starts_fetching_absent: "starts_fetching env Absent"
  by (simp add: starts_fetching_def readLog_def init_log_def entries_some_def Let_def)

lemma run_down:
  "run (example_env replies_down) Absent =
     (1, Absent,
      down_events @ [attempt_failed 1, Sleep 1500] @ down_events @
      [attempt_failed 2, Sleep 1500] @ down_events @
      [attempt_failed 3, ConsoleError ''daily.js failed:'' (TypeError ''fetch failed'')])"
  using starts_fetching_main[OF starts_fetching_absent, of "example_env replies_down" "[]"]
  by (auto simp: run_def attempts_from_0 fetch_both_down attempt_failed_def)

theorem failed_fetch_leaves_log_untouched_witness:
  "starts_fetching (example_env replies_down) Absent
 \<and> run (example_env replies_down) Absent =
     (1, Absent,
      down_events @ [attempt_failed 1, Sleep 1500] @ down_events @
      [attempt_failed 2, Sleep 1500] @ down_events @
      [attempt_failed 3, ConsoleError ''daily.js failed:'' (TypeError ''fetch failed'')])
 \<and> writes (down_events @ [attempt_failed 1, Sleep 1500] @ down_events @
      [attempt_failed 2, Sleep 1500] @ down_events @
      [attempt_failed 3, ConsoleError ''daily.js failed:'' (TypeError ''fetch failed'')]) = []
 \<and> run (example_env replies_primary) Absent =
     (0, Holds doc_primary,
      [Request FNG_URL, Request BTC1_URL, WriteFile doc_primary,
       ConsoleLog [JStr ''Wrote entry:'', entry_primary]])
 \<and> entry_primary \<in> set (entries_of (Holds doc_primary))"
  using
    failed_fetch_leaves_log_untouched
      [where env = "example_env replies_down" and ?file = Absent and c = 1 and file' = Absent
         and t = "down_events @ [attempt_failed 1, Sleep 1500] @ down_events @
                  [attempt_failed 2, Sleep 1500] @ down_events @
                  [attempt_failed 3,
                   ConsoleError ''daily.js failed:'' (TypeError ''fetch failed'')]"
         and ?e0.0 = "TypeError ''fetch failed''" and ?t0.0 = down_events
         and ?e1.0 = "TypeError ''fetch failed''"
         and ?t1.0 = "down_events @ [attempt_failed 1, Sleep 1500] @ down_events"
         and ?e2.0 = "TypeError ''fetch failed''"
         and ?t2.0 = "down_events @ [attempt_failed 1, Sleep 1500] @ down_events @
                      [attempt_failed 2, Sleep 1500] @ down_events"]
    failed_fetch_leaves_log_untouched
      [where env = "example_env replies_primary" and ?file = Absent and c = 0
         and file' = "Holds doc_primary"
         and t = "[Request FNG_URL, Request BTC1_URL, WriteFile doc_primary,
                   ConsoleLog [JStr ''Wrote entry:'', entry_primary]]"]
  by (simp add: run_down run_primary starts_fetching_absent fetch_both_down attempt_failed_def
      down_events_def doc_primary_def)

subsection \<open>What a run loads\<close>

lemma finite_json_field:
  "list_all (\<lambda>kv. finite_json (snd kv)) kvs \<Longrightarrow> map_of kvs k = Some v \<Longrightarrow> finite_json v"
  by (auto simp: list_all_iff dest!: map_of_SomeD)

lemma loaded_entries:
  assumes "readLog file = Inr doc" and "init_log ymd doc = Inr kvs'"
    and "map_of kvs' ''entries'' = Some (JArr xs)"
  shows "xs = entries_of file"
proof -
  from init_log_object[OF assms(2)] obtain kvs where doc: "doc = JObj kvs" by auto
  note e = init_log_entries[OF assms(2)[unfolded doc], unfolded assms(3)]
  show ?thesis
  proof (cases "file")
    case Absent
    with assms(1) doc e show ?thesis by (auto simp: readLog_def)
  next
    case (Corrupt err)
    with assms(1) show ?thesis by (simp add: readLog_def)
  next
    case (Holds j)
    with assms(1) doc have "file = Holds (JObj kvs)" by (simp add: readLog_def)
    with e show ?thesis
      by (cases "map_of kvs ''entries''") (auto split: if_splits json.splits)
  qed
qed

lemma loaded_site_start:
  assumes "readLog file = Inr doc" and "init_log ymd doc = Inr kvs'"
  shows "map_of kvs' ''site_start'' =
     (if truthy (field_of file ''site_start'') then field_of file ''site_start''
      else Some (JStr ymd))"
proof -
  from init_log_object[OF assms(2)] obtain kvs where doc: "doc = JObj kvs" by auto
  note e = init_log_site_start[OF assms(2)[unfolded doc]]
  show ?thesis
  proof (cases "file")
    case Absent
    with assms(1) doc e show ?thesis by (auto simp: readLog_def)
  next
    case (Corrupt err)
    with assms(1) show ?thesis by (simp add: readLog_def)
  next
    case (Holds j)
    with assms(1) doc have "file = Holds (JObj kvs)" by (simp add: readLog_def)
    with e show ?thesis by simp
  qed
qed

lemma loaded_other:
  assumes "readLog file = Inr doc" and "init_log ymd doc = Inr kvs'"
    and "k \<noteq> ''site_start''" and "k \<noteq> ''entries''"
  shows "map_of kvs' k = field_of file k"
proof -
  from init_log_object[OF assms(2)] obtain kvs where doc: "doc = JObj kvs" by auto
  note e = init_log_other[OF assms(2)[unfolded doc] assms(3,4)]
  show ?thesis
  proof (cases "file")
    case Absent
    with assms doc e show ?thesis by (auto simp: readLog_def)
  next
    case (Corrupt err)
    with assms(1) show ?thesis by (simp add: readLog_def)
  next
    case (Holds j)
    with assms(1) doc have "file = Holds (JObj kvs)" by (simp add: readLog_def)
    with e show ?thesis by simp
  qed
qed

lemma finite_file_entries: "finite_file file \<Longrightarrow> list_all finite_json (entries_of file)"
proof (cases "file")
  case (Holds j)
  assume "finite_file file"
  with Holds show ?thesis
    by (cases j) (auto split: option.splits json.splits dest: finite_json_field)
qed simp_all

lemma finite_file_field: "finite_file file \<Longrightarrow> field_of file k = Some v \<Longrightarrow> finite_json v"
proof (cases "file")
  case (Holds j)
  assume "finite_file file" "field_of file k = Some v"
  with Holds show ?thesis by (cases j) (auto dest: finite_json_field)
qed simp_all

lemma dated_make_entry: "dated ymd (make_entry env ymd fng btc)"
  by (simp add: dated_def make_entry_def)

subsection \<open>Two runs on one day\<close>

lemma run_skips:
  assumes "readLog file = Inr doc" and "init_log (todayYmdUTC env) doc = Inr kvs'"
    and "map_of kvs' ''entries'' = Some (JArr xs)"
    and "some_date (todayYmdUTC env) xs = Inr True"
  shows "run env file =
     (0, file,
      [ConsoleLog [JStr ''Already logged for'', JStr (todayYmdUTC env), JStr ''- skip.'']])"
  using assms by (simp add: run_def main_def Let_def entries_some_def)

lemma run_skips_on_object:
  assumes "map_of kvs ''entries'' = Some (JArr xs)" and "JNull \<notin> set xs"
    and "\<exists>e \<in> set xs. dated (todayYmdUTC env) e"
  shows "run env (Holds (JObj kvs)) =
     (0, Holds (JObj kvs),
      [ConsoleLog [JStr ''Already logged for'', JStr (todayYmdUTC env), JStr ''- skip.'']])"
proof -
  obtain kvs' where i: "init_log (todayYmdUTC env) (JObj kvs) = Inr kvs'"
    using init_log_total by blast
  from init_log_entries[OF i] assms(1) have "map_of kvs' ''entries'' = Some (JArr xs)" by simp
  moreover have "readLog (Holds (JObj kvs)) = Inr (JObj kvs)" by (simp add: readLog_def)
  ultimately show ?thesis
    using run_skips[OF _ i _ some_date_found[OF assms(2,3)]] by simp
qed

lemma appended_file_skips:
  assumes fin: "list_all finite_json xs" and none: "some_date ymd xs = Inr False"
    and ys: "push_sort env xs (make_entry env ymd fng btc) = Inr ys"
    and k: "map_of kvs' ''entries'' = Some (JArr xs)"
    and f1: "file1 = writeLog (JObj (AList.update ''entries'' (JArr ys) kvs'))"
    and d2: "todayYmdUTC env2 = ymd"
  shows "length (filter (dated ymd) (entries_of file1)) = 1"
    and "run env2 file1 =
     (0, file1, [ConsoleLog [JStr ''Already logged for'', JStr ymd, JStr ''- skip.'']])"
proof -
  let ?e = "make_entry env ymd fng btc"
  note m = push_sort_mset[OF ys]
  then have set_ys: "set ys = insert ?e (set xs)"
    by (metis set_mset_add_mset_insert set_mset_mset)
  note nx = some_date_False[OF none]
  have ents: "entries_of file1 = map reparse ys"
    unfolding f1 by (rule entries_of_writeLog[OF k])
  have "filter (dated ymd) (map reparse ys) = map reparse (filter (dated ymd) ys)"
    by (simp add: filter_map o_def dated_reparse)
  moreover have "size (filter_mset (dated ymd) (mset ys)) = 1"
    using m nx dated_make_entry[of ymd env fng btc]
    by (simp flip: mset_filter)
  then have "length (filter (dated ymd) ys) = 1"
    by (simp flip: mset_filter)
  ultimately show "length (filter (dated ymd) (entries_of file1)) = 1"
    using ents by simp
  have nonnull: "JNull \<notin> set (map reparse ys)"
  proof
    assume "JNull \<in> set (map reparse ys)"
    then obtain y where y: "y \<in> set ys" "reparse y = JNull" by auto
    show False
    proof (cases "y = ?e")
      case True
      with y(2) show False by (simp add: make_entry_def)
    next
      case False
      with y(1) set_ys have yx: "y \<in> set xs" by auto
      with fin have "finite_json y" by (simp add: list_all_iff)
      with y(2) have "y = JNull" by (simp add: reparse_finite)
      with yx nx show False by simp
    qed
  qed
  have found: "\<exists>e \<in> set (map reparse ys). dated (todayYmdUTC env2) e"
    using set_ys dated_make_entry[of ymd env fng btc] d2
    by (auto simp: dated_reparse)
  have "file1 = Holds (JObj (map (\<lambda>(k, v). (k, reparse v))
                              (AList.update ''entries'' (JArr ys) kvs')))"
    unfolding f1 by (simp add: writeLog_def)
  moreover have "map_of (map (\<lambda>(k, v). (k, reparse v)) (AList.update ''entries'' (JArr ys) kvs'))
                   ''entries'' = Some (JArr (map reparse ys))"
    by (simp add: map_of_reparse update_conv')
  ultimately show "run env2 file1 =
     (0, file1, [ConsoleLog [JStr ''Already logged for'', JStr ymd, JStr ''- skip.'']])"
    using run_skips_on_object[OF _ nonnull found] d2 by simp
qed

text \<open>
  Claim C1. Take a file that is absent or holds a document with finite numbers in it (every
  document the script wrote is one) and at most one entry for the date \<open>ymd\<close>. If a run on
  the day \<open>ymd\<close> ends with code 0, the file then holds exactly one entry for \<open>ymd\<close>, and any
  further run on that day, whatever the network does, ends with code 0 after the single
  console line of the skip: it makes no request and no write, and the file stays as it is.
  More generally a run skips in this way whenever the loaded document is an object whose
  entries are an array without \<^verbatim>\<open>null\<close> that has an entry dated today.
\<close>

theorem second_run_same_day_skips:
  "(finite_file file \<and> length (filter (dated ymd) (entries_of file)) \<le> 1 \<and>
    todayYmdUTC env = ymd \<and> todayYmdUTC env2 = ymd \<and> run env file = (0, file1, t1)
    \<longrightarrow> length (filter (dated ymd) (entries_of file1)) = 1 \<and>
        run env2 file1 =
          (0, file1, [ConsoleLog [JStr ''Already logged for'', JStr ymd, JStr ''- skip.'']]) \<and>
        requests (snd (snd (run env2 file1))) = [] \<and>
        writes (snd (snd (run env2 file1))) = [])
 \<and> (file = Holds (JObj kvs) \<and> map_of kvs ''entries'' = Some (JArr xs) \<and> JNull \<notin> set xs \<and>
    (\<exists>e \<in> set xs. dated ymd e) \<and> todayYmdUTC env = ymd
    \<longrightarrow> run env file =
          (0, file, [ConsoleLog [JStr ''Already logged for'', JStr ymd, JStr ''- skip.'']]))"
proof (intro conjI impI)
  assume a: "finite_file file \<and> length (filter (dated ymd) (entries_of file)) \<le> 1 \<and>
    todayYmdUTC env = ymd \<and> todayYmdUTC env2 = ymd \<and> run env file = (0, file1, t1)"
  then have fin: "finite_file file" and le: "length (filter (dated ymd) (entries_of file)) \<le> 1"
    and d1: "todayYmdUTC env = ymd" and d2: "todayYmdUTC env2 = ymd"
    and r: "run env file = (0, file1, t1)" by simp_all
  have both: "length (filter (dated ymd) (entries_of file1)) = 1 \<and>
        run env2 file1 =
          (0, file1, [ConsoleLog [JStr ''Already logged for'', JStr ymd, JStr ''- skip.'']])"
    using run_outcomes[OF r]
  proof (elim disjE exE conjE)
    assume "(0::nat) = 1"
    then show ?thesis by simp
  next
    fix doc kvs' xs'
    assume s: "file1 = file" "readLog file = Inr doc"
      "init_log (todayYmdUTC env) doc = Inr kvs'" "map_of kvs' ''entries'' = Some (JArr xs')"
      "some_date (todayYmdUTC env) xs' = Inr True"
    from loaded_entries[OF s(2,3,4)] have xs': "xs' = entries_of file" .
    from some_date_True[OF s(5)] xs' d1 have "filter (dated ymd) (entries_of file) \<noteq> []"
      by (auto simp: filter_empty_conv)
    then have "1 \<le> length (filter (dated ymd) (entries_of file))"
      by (simp add: Suc_leI)
    with le have "length (filter (dated ymd) (entries_of file)) = 1" by simp
    moreover from run_skips[of "file" doc env2 kvs' xs'] s d1 d2
    have "run env2 file =
       (0, file, [ConsoleLog [JStr ''Already logged for'', JStr ymd, JStr ''- skip.'']])"
      by simp
    ultimately show ?thesis using s(1) by simp
  next
    fix doc kvs' xs' fng btc ta ys
    assume s: "readLog file = Inr doc" "init_log (todayYmdUTC env) doc = Inr kvs'"
      "map_of kvs' ''entries'' = Some (JArr xs')" "some_date (todayYmdUTC env) xs' = Inr False"
      "push_sort env xs' (make_entry env (todayYmdUTC env) fng btc) = Inr ys"
      "file1 = writeLog (JObj (AList.update ''entries'' (JArr ys) kvs'))"
    from loaded_entries[OF s(1,2,3)] finite_file_entries[OF fin]
    have "list_all finite_json xs'" by simp
    from appended_file_skips[OF this s(4)[unfolded d1] s(5)[unfolded d1] s(3) s(6) d2]
    show ?thesis by simp
  qed
  then show "length (filter (dated ymd) (entries_of file1)) = 1"
    and "run env2 file1 =
          (0, file1, [ConsoleLog [JStr ''Already logged for'', JStr ymd, JStr ''- skip.'']])"
    by simp_all
  from both show "requests (snd (snd (run env2 file1))) = []"
    and "writes (snd (snd (run env2 file1))) = []" by simp_all
next
  assume "file = Holds (JObj kvs) \<and> map_of kvs ''entries'' = Some (JArr xs) \<and> JNull \<notin> set xs \<and>
    (\<exists>e \<in> set xs. dated ymd e) \<and> todayYmdUTC env = ymd"
  then show "run env file =
          (0, file, [ConsoleLog [JStr ''Already logged for'', JStr ymd, JStr ''- skip.'']])"
    using run_skips_on_object[of kvs xs env] by auto
qed

text \<open>
  The first example run twice: the second run, here with every service down, finds the entry
  of the first and skips.
\<close>

theorem second_run_same_day_skips_witness:
  "finite_file Absent
 \<and> length (filter (dated ''2024-01-05'') (entries_of Absent)) \<le> 1
 \<and> run (example_env replies_primary) Absent =
     (0, Holds doc_primary,
      [Request FNG_URL, Request BTC1_URL, WriteFile doc_primary,
       ConsoleLog [JStr ''Wrote entry:'', entry_primary]])
 \<and> length (filter (dated ''2024-01-05'') (entries_of (Holds doc_primary))) = 1
 \<and> run (example_env replies_down) (Holds doc_primary) =
     (0, Holds doc_primary,
      [ConsoleLog [JStr ''Already logged for'', JStr ''2024-01-05'', JStr ''- skip.'']])"
proof -
  have first: "finite_file Absent \<and>
      length (filter (dated ''2024-01-05'') (entries_of Absent)) \<le> 1 \<and>
      todayYmdUTC (example_env replies_primary) = ''2024-01-05'' \<and>
      todayYmdUTC (example_env replies_down) = ''2024-01-05'' \<and>
      run (example_env replies_primary) Absent =
        (0, Holds doc_primary,
         [Request FNG_URL, Request BTC1_URL, WriteFile doc_primary,
          ConsoleLog [JStr ''Wrote entry:'', entry_primary]])"
    by (simp add: run_primary today_example)
  have loaded: "Holds doc_primary =
      Holds (JObj [(''site_start'', JStr ''2024-01-05''), (''entries'', JArr [entry_primary])]) \<and>
      map_of [(''site_start'', JStr ''2024-01-05''), (''entries'', JArr [entry_primary])]
        ''entries'' = Some (JArr [entry_primary]) \<and>
      JNull \<notin> set [entry_primary] \<and>
      (\<exists>e \<in> set [entry_primary]. dated ''2024-01-05'' e) \<and>
      todayYmdUTC (example_env replies_down) = ''2024-01-05''"
    by (simp add: doc_primary_def entry_primary_def dated_def today_example)
  from second_run_same_day_skips[THEN conjunct1, THEN mp, OF first]
    second_run_same_day_skips[THEN conjunct2, THEN mp, OF loaded] first
  show ?thesis by simp
qed

subsection \<open>What an appending run persists besides the entry\<close>

text \<open>
  Claim C7. In a run that writes the file, the entry announced by \<^verbatim>\<open>Wrote entry:\<close> is dated
  today and is among the persisted entries. If the loaded \<^verbatim>\<open>site_start\<close> was absent,
  \<^verbatim>\<open>null\<close> or otherwise falsy (also when there was no file), the persisted \<^verbatim>\<open>site_start\<close> is
  today's date, the date of that entry. If it was truthy it is re-serialized as it was; in
  particular a non-empty string is persisted unchanged.
\<close>

theorem site_start_set_by_first_append:
  "run env file = (c, file', t) \<and> writes t \<noteq> [] \<longrightarrow>
     (\<exists>entry. last t = ConsoleLog [JStr ''Wrote entry:'', entry] \<and>
              get_prop entry ''date'' = Some (JStr (todayYmdUTC env)) \<and>
              reparse entry \<in> set (entries_of file'))
   \<and> (\<not> truthy (field_of file ''site_start'')
      \<longrightarrow> field_of file' ''site_start'' = Some (JStr (todayYmdUTC env)))
   \<and> (truthy (field_of file ''site_start'')
      \<longrightarrow> field_of file' ''site_start'' = map_option reparse (field_of file ''site_start''))
   \<and> (\<forall>s. field_of file ''site_start'' = Some (JStr s) \<and> s \<noteq> []
      \<longrightarrow> field_of file' ''site_start'' = Some (JStr s))"
proof
  assume "run env file = (c, file', t) \<and> writes t \<noteq> []"
  then have r: "run env file = (c, file', t)" and w: "writes t \<noteq> []" by simp_all
  from run_outcomes[OF r] w obtain doc kvs' xs fng btc ta ys where
    a: "readLog file = Inr doc" "init_log (todayYmdUTC env) doc = Inr kvs'"
      "map_of kvs' ''entries'' = Some (JArr xs)"
      "push_sort env xs (make_entry env (todayYmdUTC env) fng btc) = Inr ys"
      "file' = writeLog (JObj (AList.update ''entries'' (JArr ys) kvs'))"
      "t = ta @ [WriteFile (JObj (AList.update ''entries'' (JArr ys) kvs')),
                 ConsoleLog [JStr ''Wrote entry:'', make_entry env (todayYmdUTC env) fng btc]]"
    by auto
  let ?e = "make_entry env (todayYmdUTC env) fng btc"
  have "?e \<in> set ys"
    using push_sort_mset[OF a(4)] by (metis set_mset_mset union_single_eq_member)
  then have "reparse ?e \<in> set (entries_of file')"
    using a(3,5) by (simp add: entries_of_writeLog)
  moreover have "get_prop ?e ''date'' = Some (JStr (todayYmdUTC env))"
    by (simp add: make_entry_def)
  moreover have "last t = ConsoleLog [JStr ''Wrote entry:'', ?e]"
    using a(6) by simp
  ultimately have entry: "\<exists>entry. last t = ConsoleLog [JStr ''Wrote entry:'', entry] \<and>
              get_prop entry ''date'' = Some (JStr (todayYmdUTC env)) \<and>
              reparse entry \<in> set (entries_of file')"
    by blast
  have ss: "field_of file' ''site_start'' =
      map_option reparse
        (if truthy (field_of file ''site_start'') then field_of file ''site_start''
         else Some (JStr (todayYmdUTC env)))"
    using loaded_site_start[OF a(1,2)] a(5) by (simp add: field_of_writeLog)
  from entry ss show "(\<exists>entry. last t = ConsoleLog [JStr ''Wrote entry:'', entry] \<and>
              get_prop entry ''date'' = Some (JStr (todayYmdUTC env)) \<and>
              reparse entry \<in> set (entries_of file'))
   \<and> (\<not> truthy (field_of file ''site_start'')
      \<longrightarrow> field_of file' ''site_start'' = Some (JStr (todayYmdUTC env)))
   \<and> (truthy (field_of file ''site_start'')
      \<longrightarrow> field_of file' ''site_start'' = map_option reparse (field_of file ''site_start''))
   \<and> (\<forall>s. field_of file ''site_start'' = Some (JStr s) \<and> s \<noteq> []
      \<longrightarrow> field_of file' ''site_start'' = Some (JStr s))"
    by auto
qed

text \<open>
  The first example on a document of an earlier day: the entry is appended after the older
  one, and \<^verbatim>\<open>site_start\<close> and \<^verbatim>\<open>schema\<close> stay.
\<close>

lemma entry_older_date:
  "entry_older \<noteq> JNull" "get_prop entry_older ''date'' = Some (JStr ''2024-01-04'')"
  by (simp_all add: entry_older_def)

lemma run_before:
  "run (example_env replies_primary) (Holds doc_before) =
     (0, Holds doc_after,
      [Request FNG_URL, Request BTC1_URL, WriteFile doc_after,
       ConsoleLog [JStr ''Wrote entry:'', entry_primary]])"
proof -
  have "push_sort (example_env replies_primary) [entry_older] entry_primary =
          Inr [entry_older, entry_primary]"
    by (simp add: push_sort_def compare_dates_def date_of_def less_than_def entry_primary_def
        entry_older_def)
  moreover have "reparse doc_after = doc_after"
    by (simp add: doc_after_def entry_older_def entry_primary_def)
  ultimately show ?thesis
    using attempts_primary[of "[]"]
    by (simp add: run_def main_def readLog_def init_log_def Let_def entries_some_def
        today_example make_entry_primary writeLog_def doc_before_def date_of_def
        entry_older_date doc_after_def)
qed

theorem site_start_set_by_first_append_witness:
  "run (example_env replies_primary) Absent =
     (0, Holds doc_primary,
      [Request FNG_URL, Request BTC1_URL, WriteFile doc_primary,
       ConsoleLog [JStr ''Wrote entry:'', entry_primary]])
 \<and> field_of Absent ''site_start'' = None
 \<and> field_of (Holds doc_primary) ''site_start'' = Some (JStr ''2024-01-05'')
 \<and> run (example_env replies_primary) (Holds doc_before) =
     (0, Holds doc_after,
      [Request FNG_URL, Request BTC1_URL, WriteFile doc_after,
       ConsoleLog [JStr ''Wrote entry:'', entry_primary]])
 \<and> field_of (Holds doc_before) ''site_start'' = Some (JStr ''2024-01-01'')
 \<and> field_of (Holds doc_after) ''site_start'' = Some (JStr ''2024-01-01'')"
proof -
  have fresh: "run (example_env replies_primary) Absent =
      (0, Holds doc_primary,
       [Request FNG_URL, Request BTC1_URL, WriteFile doc_primary,
        ConsoleLog [JStr ''Wrote entry:'', entry_primary]]) \<and>
      writes [Request FNG_URL, Request BTC1_URL, WriteFile doc_primary,
              ConsoleLog [JStr ''Wrote entry:'', entry_primary]] \<noteq> []"
    by (simp add: run_primary)
  have started: "run (example_env replies_primary) (Holds doc_before) =
      (0, Holds doc_after,
       [Request FNG_URL, Request BTC1_URL, WriteFile doc_after,
        ConsoleLog [JStr ''Wrote entry:'', entry_primary]]) \<and>
      writes [Request FNG_URL, Request BTC1_URL, WriteFile doc_after,
              ConsoleLog [JStr ''Wrote entry:'', entry_primary]] \<noteq> []"
    by (simp add: run_before)
  have "field_of (Holds doc_before) ''site_start'' = Some (JStr ''2024-01-01'')"
    by (simp add: doc_before_def)
  with site_start_set_by_first_append[THEN mp, OF fresh]
    site_start_set_by_first_append[THEN mp, OF started] fresh started
  show ?thesis by (simp add: today_example)
qed

text \<open>
  Claim C9. In a run that writes the file, every top-level field other than \<^verbatim>\<open>site_start\<close>
  and \<^verbatim>\<open>entries\<close> is in the document handed to \<^verbatim>\<open>JSON.stringify\<close> exactly as it was loaded,
  and is persisted re-serialized; for a loaded document with finite numbers the persisted
  field equals the loaded one.
\<close>

theorem other_fields_survive_append:
  "run env file = (c, file', t) \<and> writes t \<noteq> [] \<and> k \<noteq> ''site_start'' \<and> k \<noteq> ''entries'' \<longrightarrow>
     (\<exists>doc. writes t = [doc] \<and> file' = writeLog doc \<and> get_prop doc k = field_of file k)
   \<and> field_of file' k = map_option reparse (field_of file k)
   \<and> (finite_file file \<longrightarrow> field_of file' k = field_of file k)"
proof
  assume "run env file = (c, file', t) \<and> writes t \<noteq> [] \<and> k \<noteq> ''site_start'' \<and> k \<noteq> ''entries''"
  then have r: "run env file = (c, file', t)" and w: "writes t \<noteq> []"
    and k: "k \<noteq> ''site_start''" "k \<noteq> ''entries''" by simp_all
  from run_outcomes[OF r] w obtain doc kvs' ys where
    a: "readLog file = Inr doc" "init_log (todayYmdUTC env) doc = Inr kvs'"
      "file' = writeLog (JObj (AList.update ''entries'' (JArr ys) kvs'))"
      "writes t = [JObj (AList.update ''entries'' (JArr ys) kvs')]"
    by auto
  note o = loaded_other[OF a(1,2) k]
  have mem: "get_prop (JObj (AList.update ''entries'' (JArr ys) kvs')) k = field_of file k"
    using o k by (simp add: update_conv')
  have per: "field_of file' k = map_option reparse (field_of file k)"
    using o k a(3) by (simp add: field_of_writeLog)
  have "field_of file' k = field_of file k" if "finite_file file"
  proof (cases "field_of file k")
    case None
    with per show ?thesis by simp
  next
    case (Some v)
    with finite_file_field[OF that Some] per show ?thesis by (simp add: reparse_finite)
  qed
  with mem per a(3,4)
  show "(\<exists>doc. writes t = [doc] \<and> file' = writeLog doc \<and> get_prop doc k = field_of file k)
   \<and> field_of file' k = map_option reparse (field_of file k)
   \<and> (finite_file file \<longrightarrow> field_of file' k = field_of file k)"
    by blast
qed

theorem other_fields_survive_append_witness:
  "run (example_env replies_primary) (Holds doc_before) =
     (0, Holds doc_after,
      [Request FNG_URL, Request BTC1_URL, WriteFile doc_after,
       ConsoleLog [JStr ''Wrote entry:'', entry_primary]])
 \<and> finite_file (Holds doc_before)
 \<and> field_of (Holds doc_before) ''schema'' = Some (JNum (Num 2))
 \<and> field_of (Holds doc_after) ''schema'' = Some (JNum (Num 2))"
proof -
  have started: "run (example_env replies_primary) (Holds doc_before) =
      (0, Holds doc_after,
       [Request FNG_URL, Request BTC1_URL, WriteFile doc_after,
        ConsoleLog [JStr ''Wrote entry:'', entry_primary]]) \<and>
      writes [Request FNG_URL, Request BTC1_URL, WriteFile doc_after,
              ConsoleLog [JStr ''Wrote entry:'', entry_primary]] \<noteq> [] \<and>
      ''schema'' \<noteq> ''site_start'' \<and> ''schema'' \<noteq> ''entries''"
    by (simp add: run_before)
  have fin: "finite_file (Holds doc_before)"
    by (simp add: doc_before_def entry_older_def)
  have kept: "field_of (Holds doc_after) ''schema'' = field_of (Holds doc_before) ''schema''"
    using other_fields_survive_append[THEN mp, OF started] fin by blast
  have "field_of (Holds doc_before) ''schema'' = Some (JNum (Num 2))"
    by (simp add: doc_before_def)
  with kept started fin show ?thesis by simp
qed

subsection \<open>A document without entries\<close>

lemma init_log_function:
  "init_log ymd doc = Inr a \<Longrightarrow> init_log ymd doc = Inr b \<Longrightarrow> a = b"
  by simp

lemma init_log_no_entries:
  assumes "\<not> truthy (map_of kvs ''entries'')" and "init_log ymd (JObj kvs) = Inr kvs'"
  shows "map_of kvs' ''entries'' = Some (JArr [])"
  using init_log_entries[OF assms(2)] assms(1)
  by (cases "map_of kvs ''entries''") auto

lemma starts_fetching_no_entries:
  assumes "\<not> truthy (map_of kvs ''entries'')"
  shows "starts_fetching env (Holds (JObj kvs))"
proof -
  obtain kvs' where i: "init_log (todayYmdUTC env) (JObj kvs) = Inr kvs'"
    using init_log_total by blast
  from init_log_no_entries[OF assms i] i show ?thesis
    by (simp add: starts_fetching_def readLog_def entries_some_def)
qed

lemma main_no_entries:
  assumes "\<not> truthy (map_of kvs ''entries'') \<or> map_of kvs ''entries'' = Some (JArr [])"
  shows "\<exists>kvs'. init_log (todayYmdUTC env) (JObj kvs) = Inr kvs' \<and>
     map_of kvs' ''entries'' = Some (JArr []) \<and>
     main env (Holds (JObj kvs)) tr =
       (case attempts env 0 tr of
          (Inl e, t1) \<Rightarrow> (Inl e, Holds (JObj kvs), t1)
        | (Inr None, t1) \<Rightarrow>
            (Inl (TypeError ''Cannot read properties of undefined''), Holds (JObj kvs), t1)
        | (Inr (Some (fng, btc)), t1) \<Rightarrow>
            (Inr (),
             writeLog (JObj (AList.update ''entries''
                               (JArr [make_entry env (todayYmdUTC env) fng btc]) kvs')),
             t1 @ [WriteFile (JObj (AList.update ''entries''
                                      (JArr [make_entry env (todayYmdUTC env) fng btc]) kvs')),
                   ConsoleLog [JStr ''Wrote entry:'',
                               make_entry env (todayYmdUTC env) fng btc]]))"
proof -
  obtain kvs' where i: "init_log (todayYmdUTC env) (JObj kvs) = Inr kvs'"
    using init_log_total by blast
  have e: "map_of kvs' ''entries'' = Some (JArr [])"
    using assms init_log_entries[OF i] by (cases "map_of kvs ''entries''") auto
  show ?thesis
    using i e
    by (simp add: main_def Let_def readLog_def entries_some_def push_sort_single
        split: prod.splits sum.splits option.splits)
qed

text \<open>
  Claim C10. Let the file hold an object whose \<^verbatim>\<open>entries\<close> is absent or falsy. Then lines 138
  and 139 do not throw and leave \<^verbatim>\<open>entries\<close> empty, the check of line 142 finds nothing, and
  \<^verbatim>\<open>main\<close> goes on to the retry loop: it fails only if the loop fails, and when the loop
  returns two quotes it writes a document whose entries are the new entry alone. Compared
  with the same document given an explicit empty \<^verbatim>\<open>entries\<close>, the run completes in the same
  way, with the same events apart from the document written, and persists the same fields.
\<close>

theorem missing_entries_start_empty:
  "file = Holds (JObj kvs) \<and> \<not> truthy (map_of kvs ''entries'') \<longrightarrow>
     (\<exists>kvs'. init_log (todayYmdUTC env) (JObj kvs) = Inr kvs' \<and>
             map_of kvs' ''entries'' = Some (JArr []))
   \<and> starts_fetching env file
   \<and> (\<forall>e t. attempts env 0 tr = (Inl e, t) \<longrightarrow> main env file tr = (Inl e, file, t))
   \<and> (\<forall>fng btc t. attempts env 0 tr = (Inr (Some (fng, btc)), t) \<longrightarrow>
        (\<exists>doc. main env file tr =
                 (Inr (), writeLog doc,
                  t @ [WriteFile doc,
                       ConsoleLog [JStr ''Wrote entry:'',
                                   make_entry env (todayYmdUTC env) fng btc]]) \<and>
               get_prop doc ''entries'' =
                 Some (JArr [make_entry env (todayYmdUTC env) fng btc]) \<and>
               entries_of (writeLog doc) =
                 [reparse (make_entry env (todayYmdUTC env) fng btc)]))
   \<and> (\<forall>r f t r0 f0 t0.
        main env file tr = (r, f, t) \<and>
        main env (Holds (JObj (AList.update ''entries'' (JArr []) kvs))) tr = (r0, f0, t0) \<longrightarrow>
          r = r0 \<and> length t = length t0 \<and>
          filter (\<lambda>ev. writes [ev] = []) t = filter (\<lambda>ev. writes [ev] = []) t0 \<and>
          (r = Inr () \<longrightarrow> (\<forall>k. field_of f k = field_of f0 k)))"
proof
  assume "file = Holds (JObj kvs) \<and> \<not> truthy (map_of kvs ''entries'')"
  then have fl: "file = Holds (JObj kvs)" and falsy: "\<not> truthy (map_of kvs ''entries'')"
    by simp_all
  let ?ymd = "todayYmdUTC env"
  let ?kvs0 = "AList.update ''entries'' (JArr []) kvs"
  from main_no_entries[of kvs env tr] falsy obtain kvs' where
    i: "init_log ?ymd (JObj kvs) = Inr kvs'" and e: "map_of kvs' ''entries'' = Some (JArr [])"
    and m: "main env (Holds (JObj kvs)) tr =
       (case attempts env 0 tr of
          (Inl e, t1) \<Rightarrow> (Inl e, Holds (JObj kvs), t1)
        | (Inr None, t1) \<Rightarrow>
            (Inl (TypeError ''Cannot read properties of undefined''), Holds (JObj kvs), t1)
        | (Inr (Some (fng, btc)), t1) \<Rightarrow>
            (Inr (),
             writeLog (JObj (AList.update ''entries'' (JArr [make_entry env ?ymd fng btc]) kvs')),
             t1 @ [WriteFile (JObj (AList.update ''entries''
                                      (JArr [make_entry env ?ymd fng btc]) kvs')),
                   ConsoleLog [JStr ''Wrote entry:'', make_entry env ?ymd fng btc]]))"
    by blast
  have "map_of ?kvs0 ''entries'' = Some (JArr [])" by (simp add: update_conv')
  with main_no_entries[of ?kvs0 env tr] obtain kvs0' where
    i0: "init_log ?ymd (JObj ?kvs0) = Inr kvs0'"
    and m0: "main env (Holds (JObj ?kvs0)) tr =
       (case attempts env 0 tr of
          (Inl e, t1) \<Rightarrow> (Inl e, Holds (JObj ?kvs0), t1)
        | (Inr None, t1) \<Rightarrow>
            (Inl (TypeError ''Cannot read properties of undefined''), Holds (JObj ?kvs0), t1)
        | (Inr (Some (fng, btc)), t1) \<Rightarrow>
            (Inr (),
             writeLog (JObj (AList.update ''entries'' (JArr [make_entry env ?ymd fng btc]) kvs0')),
             t1 @ [WriteFile (JObj (AList.update ''entries''
                                      (JArr [make_entry env ?ymd fng btc]) kvs0')),
                   ConsoleLog [JStr ''Wrote entry:'', make_entry env ?ymd fng btc]]))"
    by blast
  have same: "map_of kvs0' k = map_of kvs' k" for k
  proof -
    consider "k = ''entries''" | "k = ''site_start''" | "k \<noteq> ''entries''" "k \<noteq> ''site_start''"
      by blast
    then show ?thesis
    proof cases
      case 1
      with e init_log_entries[OF i0] show ?thesis by (simp add: update_conv')
    next
      case 2
      with init_log_site_start[OF i] init_log_site_start[OF i0] show ?thesis
        by (simp add: update_conv')
    next
      case 3
      with init_log_other[OF i, of k] init_log_other[OF i0, of k] show ?thesis
        by (simp add: update_conv')
    qed
  qed
  have c1: "\<exists>kvs'. init_log ?ymd (JObj kvs) = Inr kvs' \<and> map_of kvs' ''entries'' = Some (JArr [])"
    using i e by blast
  have c2: "starts_fetching env file"
    unfolding fl by (rule starts_fetching_no_entries[OF falsy])
  have c3: "\<forall>e t. attempts env 0 tr = (Inl e, t) \<longrightarrow> main env file tr = (Inl e, file, t)"
    unfolding fl by (simp add: m)
  have c4: "\<forall>fng btc t. attempts env 0 tr = (Inr (Some (fng, btc)), t) \<longrightarrow>
        (\<exists>doc. main env file tr =
                 (Inr (), writeLog doc,
                  t @ [WriteFile doc,
                       ConsoleLog [JStr ''Wrote entry:'', make_entry env ?ymd fng btc]]) \<and>
               get_prop doc ''entries'' = Some (JArr [make_entry env ?ymd fng btc]) \<and>
               entries_of (writeLog doc) = [reparse (make_entry env ?ymd fng btc)])"
  proof (intro allI impI)
    fix fng btc t
    assume att: "attempts env 0 tr = (Inr (Some (fng, btc)), t)"
    let ?doc = "JObj (AList.update ''entries'' (JArr [make_entry env ?ymd fng btc]) kvs')"
    have "main env file tr =
        (Inr (), writeLog ?doc,
         t @ [WriteFile ?doc, ConsoleLog [JStr ''Wrote entry:'', make_entry env ?ymd fng btc]])"
      unfolding fl by (simp add: m att)
    moreover have "get_prop ?doc ''entries'' = Some (JArr [make_entry env ?ymd fng btc])"
      by (simp add: update_conv')
    moreover have "entries_of (writeLog ?doc) = [reparse (make_entry env ?ymd fng btc)]"
      using entries_of_writeLog[OF e] by simp
    ultimately show "\<exists>doc. main env file tr =
                 (Inr (), writeLog doc,
                  t @ [WriteFile doc,
                       ConsoleLog [JStr ''Wrote entry:'', make_entry env ?ymd fng btc]]) \<and>
               get_prop doc ''entries'' = Some (JArr [make_entry env ?ymd fng btc]) \<and>
               entries_of (writeLog doc) = [reparse (make_entry env ?ymd fng btc)]"
      by blast
  qed
  have c5: "\<forall>r f t r0 f0 t0.
        main env file tr = (r, f, t) \<and> main env (Holds (JObj ?kvs0)) tr = (r0, f0, t0) \<longrightarrow>
          r = r0 \<and> length t = length t0 \<and>
          filter (\<lambda>ev. writes [ev] = []) t = filter (\<lambda>ev. writes [ev] = []) t0 \<and>
          (r = Inr () \<longrightarrow> (\<forall>k. field_of f k = field_of f0 k))"
  proof (intro allI impI)
    fix r f t r0 f0 t0
    assume "main env file tr = (r, f, t) \<and> main env (Holds (JObj ?kvs0)) tr = (r0, f0, t0)"
    then have a: "main env (Holds (JObj kvs)) tr = (r, f, t)"
      and b: "main env (Holds (JObj ?kvs0)) tr = (r0, f0, t0)"
      unfolding fl by simp_all
    obtain ra ta where att: "attempts env 0 tr = (ra, ta)" by (cases "attempts env 0 tr")
    show "r = r0 \<and> length t = length t0 \<and>
          filter (\<lambda>ev. writes [ev] = []) t = filter (\<lambda>ev. writes [ev] = []) t0 \<and>
          (r = Inr () \<longrightarrow> (\<forall>k. field_of f k = field_of f0 k))"
    proof (cases ra)
      case (Inl err)
      with a b att show ?thesis by (auto simp: m m0)
    next
      case (Inr p)
      show ?thesis
      proof (cases p)
        case None
        with Inr a b att show ?thesis by (auto simp: m m0)
      next
        case (Some q)
        obtain fng btc where q: "q = (fng, btc)" by (cases q)
        from Some Inr q a b att show ?thesis
          by (auto simp: m m0 field_of_writeLog same)
      qed
    qed
  qed
  from c1 c2 c3 c4 c5
  show "(\<exists>kvs'. init_log ?ymd (JObj kvs) = Inr kvs' \<and> map_of kvs' ''entries'' = Some (JArr []))
   \<and> starts_fetching env file
   \<and> (\<forall>e t. attempts env 0 tr = (Inl e, t) \<longrightarrow> main env file tr = (Inl e, file, t))
   \<and> (\<forall>fng btc t. attempts env 0 tr = (Inr (Some (fng, btc)), t) \<longrightarrow>
        (\<exists>doc. main env file tr =
                 (Inr (), writeLog doc,
                  t @ [WriteFile doc,
                       ConsoleLog [JStr ''Wrote entry:'', make_entry env ?ymd fng btc]]) \<and>
               get_prop doc ''entries'' = Some (JArr [make_entry env ?ymd fng btc]) \<and>
               entries_of (writeLog doc) = [reparse (make_entry env ?ymd fng btc)]))
   \<and> (\<forall>r f t r0 f0 t0.
        main env file tr = (r, f, t) \<and>
        main env (Holds (JObj (AList.update ''entries'' (JArr []) kvs))) tr = (r0, f0, t0) \<longrightarrow>
          r = r0 \<and> length t = length t0 \<and>
          filter (\<lambda>ev. writes [ev] = []) t = filter (\<lambda>ev. writes [ev] = []) t0 \<and>
          (r = Inr () \<longrightarrow> (\<forall>k. field_of f k = field_of f0 k)))"
    by (intro conjI)
qed

text \<open>The first example on a document that has a \<^verbatim>\<open>site_start\<close> and nothing else.\<close>

lemma main_no_entries_example:
  "main (example_env replies_primary) (Holds doc_no_entries) [] =
     (Inr (), Holds doc_started,
      [Request FNG_URL, Request BTC1_URL, WriteFile doc_started,
       ConsoleLog [JStr ''Wrote entry:'', entry_primary]])"
  using attempts_primary[of "[]"]
  by (simp add: main_def readLog_def init_log_def Let_def entries_some_def push_sort_single
      today_example make_entry_primary writeLog_def doc_no_entries_def doc_started_def
      reparse_entry_primary)

theorem missing_entries_start_empty_witness:
  "\<not> truthy (map_of [(''site_start'', JStr ''2024-01-01'')] ''entries'')
 \<and> starts_fetching (example_env replies_primary) (Holds doc_no_entries)
 \<and> main (example_env replies_primary) (Holds doc_no_entries) [] =
     (Inr (), Holds doc_started,
      [Request FNG_URL, Request BTC1_URL, WriteFile doc_started,
       ConsoleLog [JStr ''Wrote entry:'', entry_primary]])
 \<and> entries_of (Holds doc_started) = [entry_primary]"
proof -
  have bare: "Holds doc_no_entries = Holds (JObj [(''site_start'', JStr ''2024-01-01'')]) \<and>
      \<not> truthy (map_of [(''site_start'', JStr ''2024-01-01'')] ''entries'')"
    by (simp add: doc_no_entries_def)
  from missing_entries_start_empty
         [where env = "example_env replies_primary" and tr = "[]", THEN mp, OF bare]
  have "starts_fetching (example_env replies_primary) (Holds doc_no_entries)"
    by blast
  with bare show ?thesis
    by (simp add: main_no_entries_example) (simp add: doc_started_def)
qed

end
